theory Spec2Isabelle
  imports Main "HOL-Library.Sublist" "HOL-Library.AList"
begin

section \<open>JavaScript values\<close>

text \<open>
  Every record of the application is a JSON document, and the code reads it with
  \<^verbatim>\<open>JSON.parse\<close>. A parsed document is a \<open>json\<close> value; the JavaScript value
  \<^verbatim>\<open>undefined\<close> (a missing field, a missing argument) is \<open>None\<close> of \<open>json option\<close>.
  An object is an association list read with \<open>map_of\<close>. Numbers are integers here.
\<close>

datatype json =
    JNull
  | JBool bool
  | JNum int
  | JStr string
  | JArr "json list"
  | JObj "(string \<times> json) list"

datatype error =
    Error string
  | TypeError
  | SyntaxError
  | S3Error

definition message :: "error \<Rightarrow> string" where
  "message e = (case e of Error m \<Rightarrow> m | TypeError \<Rightarrow> ''TypeError''
     | SyntaxError \<Rightarrow> ''SyntaxError'' | S3Error \<Rightarrow> ''S3Error'')"

text \<open>Property read \<^verbatim>\<open>v.name\<close> on a value that is not \<^verbatim>\<open>null\<close>, for the field names the
  code uses (none of them is a property of arrays or strings).\<close>

definition getField :: "json \<Rightarrow> string \<Rightarrow> json option" where
  "getField v name = (case v of JObj kvs \<Rightarrow> map_of kvs name | _ \<Rightarrow> None)"

text \<open>Truthiness, as \<^verbatim>\<open>!v\<close>, \<^verbatim>\<open>if (v)\<close> and \<^verbatim>\<open>v || d\<close> read it.\<close>

definition truthy :: "json option \<Rightarrow> bool" where
  "truthy v = (case v of None \<Rightarrow> False | Some JNull \<Rightarrow> False | Some (JBool b) \<Rightarrow> b
     | Some (JNum n) \<Rightarrow> n \<noteq> 0 | Some (JStr s) \<Rightarrow> s \<noteq> [] | Some (JArr _) \<Rightarrow> True
     | Some (JObj _) \<Rightarrow> True)"

fun dec :: "nat \<Rightarrow> string" where
  "dec n = (if n < 10 then [''0123456789'' ! n]
            else dec (n div 10) @ [''0123456789'' ! (n mod 10)])"

declare dec.simps [simp del]

fun js_join :: "string list \<Rightarrow> string" where
  "js_join [] = []"
| "js_join [x] = x"
| "js_join (x # y # zs) = x @ '','' @ js_join (y # zs)"

text \<open>String conversion, as a template literal \<^verbatim>\<open>`${v}`\<close> and a property key
  \<^verbatim>\<open>table[v]\<close> perform it: an array is its elements joined by commas, with
  \<^verbatim>\<open>null\<close> elements empty.\<close>

fun js_toString :: "json \<Rightarrow> string" and js_elems :: "json list \<Rightarrow> string list" where
  "js_toString JNull = ''null''"
| "js_toString (JBool b) = (if b then ''true'' else ''false'')"
| "js_toString (JNum n) = (if n < 0 then ''-'' @ dec (nat (- n)) else dec (nat n))"
| "js_toString (JStr s) = s"
| "js_toString (JArr xs) = js_join (js_elems xs)"
| "js_toString (JObj kvs) = ''[object Object]''"
| "js_elems [] = []"
| "js_elems (x # xs) = (if x = JNull then [] else js_toString x) # js_elems xs"

definition toStr :: "json option \<Rightarrow> string" where
  "toStr v = (case v of None \<Rightarrow> ''undefined'' | Some j \<Rightarrow> js_toString j)"

text \<open>Strict equality \<^verbatim>\<open>a === b\<close> of two values that come from different places (two
  parsed documents, or a parsed document and an argument): primitives are compared by
  value, arrays and objects by reference, so they are never equal.\<close>

definition primitive :: "json option \<Rightarrow> bool" where
  "primitive v = (case v of Some (JArr _) \<Rightarrow> False | Some (JObj _) \<Rightarrow> False | _ \<Rightarrow> True)"

definition strict_eq :: "json option \<Rightarrow> json option \<Rightarrow> bool" where
  "strict_eq a b = (a = b \<and> primitive a)"

text \<open>\<^verbatim>\<open>xs.includes(y)\<close> where \<open>xs\<close> is a value of a parsed document or \<^verbatim>\<open>undefined\<close>:
  on an array it is membership, on a string it is a substring test on the converted
  argument, and every other receiver has no such method.\<close>

definition js_includes :: "json option \<Rightarrow> json option \<Rightarrow> error + bool" where
  "js_includes xs y = (case xs of
       Some (JArr vs) \<Rightarrow> Inr (list_ex (\<lambda>v. strict_eq (Some v) y) vs)
     | Some (JStr s) \<Rightarrow> Inr (sublist (toStr y) s)
     | _ \<Rightarrow> Inl TypeError)"

section \<open>The bucket\<close>

text \<open>
  The S3 client is the one collaborator of the code. A bucket holds objects under string
  keys; an object is a JSON text (given by the value it parses to, so that
  \<^verbatim>\<open>JSON.parse (JSON.stringify v)\<close> is \<open>v\<close>) or any other content, which does not parse.
  A request may also fail for reasons outside the program: \<open>failing\<close> says which
  requests do. \<open>signedUrl\<close> is the URL the presigner makes for a key and a response
  content type. All code paths use one bucket. A listing answers with every key that has
  the prefix, in the order of the list: the one page of the answer that the code reads is
  taken to hold them all. \<open>s3_get\<close> answers with the content of the object; how a
  function turns the body of the response into text is part of the function.
\<close>

datatype body = Json json | Bytes string

datatype s3req =
    ListObjects string
  | GetObject string
  | HeadObject string
  | PutObject string
  | DeleteObject string
  | Presign string

record bucket =
  objects :: "(string \<times> body) list"
  failing :: "s3req \<Rightarrow> bool"
  signedUrl :: "string \<Rightarrow> json \<Rightarrow> string"

definition s3_get :: "bucket \<Rightarrow> string \<Rightarrow> error + body" where
  "s3_get s k = (if failing s (GetObject k) then Inl S3Error
                 else case map_of (objects s) k of None \<Rightarrow> Inl S3Error | Some b \<Rightarrow> Inr b)"

definition s3_head :: "bucket \<Rightarrow> string \<Rightarrow> error + unit" where
  "s3_head s k = (if failing s (HeadObject k) then Inl S3Error
                  else case map_of (objects s) k of None \<Rightarrow> Inl S3Error | Some b \<Rightarrow> Inr ())"

definition s3_put :: "bucket \<Rightarrow> string \<Rightarrow> body \<Rightarrow> (error + unit) \<times> bucket" where
  "s3_put s k b = (if failing s (PutObject k) then (Inl S3Error, s)
                   else (Inr (), s\<lparr>objects := AList.update k b (objects s)\<rparr>))"

definition s3_delete :: "bucket \<Rightarrow> string \<Rightarrow> (error + unit) \<times> bucket" where
  "s3_delete s k = (if failing s (DeleteObject k) then (Inl S3Error, s)
                    else (Inr (), s\<lparr>objects := AList.delete k (objects s)\<rparr>))"

definition s3_list :: "bucket \<Rightarrow> string \<Rightarrow> error + string list" where
  "s3_list s p = (if failing s (ListObjects p) then Inl S3Error
                  else Inr (filter (prefix p) (map fst (objects s))))"

definition JSON_parse :: "body \<Rightarrow> error + json" where
  "JSON_parse b = (case b of Json v \<Rightarrow> Inr v | Bytes _ \<Rightarrow> Inl SyntaxError)"

text \<open>\<^verbatim>\<open>Promise.all (items.map (async f))\<close>: all the results in listing order, or the
  rejection of an item.\<close>

fun all_results :: "('a \<Rightarrow> error + 'b) \<Rightarrow> 'a list \<Rightarrow> error + 'b list" where
  "all_results f [] = Inr []"
| "all_results f (x # xs) =
     (case f x of Inl e \<Rightarrow> Inl e
      | Inr y \<Rightarrow> (case all_results f xs of Inl e \<Rightarrow> Inl e | Inr ys \<Rightarrow> Inr (y # ys)))"

section \<open>License tables\<close>

definition licenseKeyLimits :: "(string \<times> nat) list" where
  "licenseKeyLimits =
     [(''BurnsideHighSchool'', 4), (''MP003'', 8), (''3399'', 20),
      (''STUDENT_KEY_1'', 10), (''TEACHER_KEY_2'', 10)]"

definition validLicenseKeys :: "(string \<times> string list) list" where
  "validLicenseKeys =
     [(''student'', [''STUDENT_KEY_1'', ''STUDENT_KEY_2'']),
      (''teacher'', [''TEACHER_KEY_1'', ''TEACHER_KEY_2''])]"

text \<open>\<^verbatim>\<open>licenseKeyLimits[k] || 0\<close>, for a key that has passed the allowed-set test.\<close>

definition limitFor :: "json option \<Rightarrow> nat" where
  "limitFor k = (case map_of licenseKeyLimits (toStr k) of None \<Rightarrow> 0 | Some n \<Rightarrow> n)"

section \<open>User repository\<close>

definition userKey :: "string \<Rightarrow> string" where
  "userKey email = ''users/'' @ email @ ''.json''"

text \<open>The required fields of a user record, as \<^verbatim>\<open>listUsers\<close> and \<^verbatim>\<open>readUser\<close> check
  them. Reading a field of \<^verbatim>\<open>null\<close> is a TypeError.\<close>

definition validateUser :: "json \<Rightarrow> error + json" where
  "validateUser user =
     (if user = JNull then Inl TypeError
      else if \<not> truthy (getField user ''email'') \<or> \<not> truthy (getField user ''firstName'')
              \<or> \<not> truthy (getField user ''accountType'')
      then Inl (Error ''Invalid user data format'')
      else Inr user)"

definition listUsers_item :: "bucket \<Rightarrow> string \<Rightarrow> error + json" where
  "listUsers_item s k =
     (case s3_get s k of Inl e \<Rightarrow> Inl e
      | Inr b \<Rightarrow> (case JSON_parse b of Inl e \<Rightarrow> Inl e | Inr user \<Rightarrow> validateUser user))"

definition listUsers :: "bucket \<Rightarrow> error + json list" where
  "listUsers s =
     (case s3_list s ''users/'' of Inl e \<Rightarrow> Inl e
      | Inr keys \<Rightarrow> if keys = [] then Inr [] else all_results (listUsers_item s) keys)"

text \<open>The body of \<^verbatim>\<open>createUser\<close> inside its \<^verbatim>\<open>try\<close>: the argument is an object, given
  by its fields. A failed read of the user's key counts as no stored record
  (\<^verbatim>\<open>.catch(() => null)\<close>); \<^verbatim>\<open>validLicenseKeys[t].includes\<close> is a TypeError when the
  table has no entry for \<open>t\<close> (an inherited property such as \<^verbatim>\<open>constructor\<close> has no
  \<^verbatim>\<open>includes\<close> either).\<close>

definition createUser_try :: "bucket \<Rightarrow> (string \<times> json) list \<Rightarrow> (error + json) \<times> bucket" where
  "createUser_try s userData =
     (case s3_get s (userKey (toStr (map_of userData ''email''))) of
        Inr existingUser \<Rightarrow> (Inl (Error ''Email already in use''), s)
      | Inl _ \<Rightarrow>
         (case map_of validLicenseKeys (toStr (map_of userData ''accountType'')) of
            None \<Rightarrow> (Inl TypeError, s)
          | Some allowed \<Rightarrow>
             if \<not> list_ex (\<lambda>k. strict_eq (Some (JStr k)) (map_of userData ''licenseKey'')) allowed
             then (Inl (Error ''Invalid license key for the selected account type.''), s)
             else (case listUsers s of
                Inl e \<Rightarrow> (Inl e, s)
              | Inr users \<Rightarrow>
                 (let licenseKeyCount = length (filter (\<lambda>u. strict_eq (getField u ''licenseKey'')
                                                  (map_of userData ''licenseKey'')) users)
                  in let licenseKeyLimit = limitFor (map_of userData ''licenseKey'')
                  in if licenseKeyCount \<ge> licenseKeyLimit
                     then (Inl (Error ''License key limit reached. No more accounts can be registered with this key.''), s)
                     else (case s3_put s (userKey (toStr (map_of userData ''email''))) (Json (JObj userData)) of
                        (Inl e, s') \<Rightarrow> (Inl e, s')
                      | (Inr _, s') \<Rightarrow> (Inr (JObj userData), s'))))))"

text \<open>The \<^verbatim>\<open>catch\<close> of \<^verbatim>\<open>createUser\<close> replaces whatever was thrown.\<close>

definition createUser :: "bucket \<Rightarrow> (string \<times> json) list \<Rightarrow> (error + json) \<times> bucket" where
  "createUser s userData =
     (case createUser_try s userData of
        (Inl e, s') \<Rightarrow> (Inl (Error ''Failed to register user''), s')
      | (Inr u, s') \<Rightarrow> (Inr u, s'))"

section \<open>Video repository\<close>

text \<open>The innermost \<^verbatim>\<open>try\<close> of \<^verbatim>\<open>listVideos\<close>: both objects must answer a
  \<^verbatim>\<open>HeadObject\<close>, and the client is taken to reject a key that is not a non-empty
  string. Only an object has a \<open>videoPath\<close>, so only an object is spread into the result.
  The module takes \<^verbatim>\<open>HeadObjectCommand\<close> from \<^verbatim>\<open>./awsS3\<close>; with a version of that file
  that does not export it, building the request throws inside this \<^verbatim>\<open>try\<close>, which is a
  bucket in which every \<open>HeadObject\<close> request is failing.\<close>

definition getSignedUrl :: "bucket \<Rightarrow> string \<Rightarrow> json \<Rightarrow> error + json" where
  "getSignedUrl s k contentType =
     (if failing s (Presign k) then Inl S3Error else Inr (JStr (signedUrl s k contentType)))"

definition orDefault :: "json option \<Rightarrow> json \<Rightarrow> json" where
  "orDefault v d = (case v of None \<Rightarrow> d | Some x \<Rightarrow> if truthy (Some x) then x else d)"

definition spread :: "json \<Rightarrow> (string \<times> json) list" where
  "spread v = (case v of JObj kvs \<Rightarrow> kvs | _ \<Rightarrow> [])"

definition listVideos_verify :: "bucket \<Rightarrow> string \<Rightarrow> json \<Rightarrow> error + json" where
  "listVideos_verify s itemKey metadata =
     (case s3_head s itemKey of
        Inl e \<Rightarrow> Inl e
      | Inr _ \<Rightarrow>
         (case getField metadata ''videoPath'' of
            Some (JStr videoKey) \<Rightarrow>
              if videoKey = [] then Inl (Error ''Empty value provided for input HTTP label: Key.'')
              else (case s3_head s videoKey of
                 Inl e \<Rightarrow> Inl e
               | Inr _ \<Rightarrow>
                  (case getSignedUrl s videoKey
                          (orDefault (getField metadata ''contentType'') (JStr ''video/mp4'')) of
                     Inl e \<Rightarrow> Inl e
                   | Inr videoUrl \<Rightarrow>
                      Inr (JObj (AList.update ''metadataKey'' (JStr itemKey)
                             (AList.update ''mimeType''
                                (orDefault (getField metadata ''contentType'') (JStr ''video/mp4''))
                             (AList.update ''videoKey'' (JStr videoKey)
                             (AList.update ''videoUrl'' videoUrl (spread metadata))))))))
          | _ \<Rightarrow> Inl TypeError))"

text \<open>The middle \<^verbatim>\<open>try\<close>: parse, the teacher's filter, then the verification, whose
  failure gives \<^verbatim>\<open>null\<close>.\<close>

definition typeof_object :: "json \<Rightarrow> bool" where
  "typeof_object v = (case v of JNull \<Rightarrow> True | JArr _ \<Rightarrow> True | JObj _ \<Rightarrow> True | _ \<Rightarrow> False)"

definition verified :: "bucket \<Rightarrow> string \<Rightarrow> json \<Rightarrow> json option" where
  "verified s itemKey metadata =
     (case listVideos_verify s itemKey metadata of Inl _ \<Rightarrow> None | Inr v \<Rightarrow> Some v)"

definition listVideos_metadata ::
  "bucket \<Rightarrow> json option \<Rightarrow> json option \<Rightarrow> json option \<Rightarrow> string \<Rightarrow> body \<Rightarrow> error + json option" where
  "listVideos_metadata s accountType schoolName classCodes itemKey b =
     (case JSON_parse b of
        Inl e \<Rightarrow> Inl e
      | Inr metadata \<Rightarrow>
         if \<not> truthy (Some metadata) \<or> \<not> typeof_object metadata
         then Inl (Error ''Invalid metadata format'')
         else if strict_eq accountType (Some (JStr ''teacher''))
         then (if \<not> strict_eq (getField metadata ''schoolName'') schoolName then Inr None
               else (case js_includes classCodes (getField metadata ''classCode'') of
                  Inl e \<Rightarrow> Inl e
                | Inr found \<Rightarrow> if \<not> found then Inr None
                               else Inr (verified s itemKey metadata)))
         else Inr (verified s itemKey metadata))"

text \<open>One listed key: a key that is not a \<^verbatim>\<open>.json\<close> key gives \<^verbatim>\<open>null\<close>; the read of
  the object is outside the middle \<^verbatim>\<open>try\<close>, so its failure rejects the item.\<close>

definition listVideos_item ::
  "bucket \<Rightarrow> json option \<Rightarrow> json option \<Rightarrow> json option \<Rightarrow> string \<Rightarrow> error + json option" where
  "listVideos_item s accountType schoolName classCodes itemKey =
     (if \<not> suffix ''.json'' itemKey then Inr None
      else (case s3_get s itemKey of
         Inl e \<Rightarrow> Inl e
       | Inr b \<Rightarrow>
          (case listVideos_metadata s accountType schoolName classCodes itemKey b of
             Inl _ \<Rightarrow> Inr None
           | Inr v \<Rightarrow> Inr v)))"

definition metadataPrefix :: "json option \<Rightarrow> json option \<Rightarrow> json option \<Rightarrow> string" where
  "metadataPrefix userEmail accountType schoolName =
     (if strict_eq accountType (Some (JStr ''teacher''))
      then ''videos/'' @ toStr schoolName @ ''/''
      else ''videos/'' @ toStr schoolName @ ''/'' @ toStr userEmail @ ''/'')"

text \<open>The body of \<^verbatim>\<open>listVideos\<close> inside its outer \<^verbatim>\<open>try\<close>. A missing \<open>classCodes\<close>
  argument is \<^verbatim>\<open>[]\<close>.\<close>

definition listVideos_try ::
  "bucket \<Rightarrow> json option \<Rightarrow> json option \<Rightarrow> json option \<Rightarrow> json option \<Rightarrow> error + json list" where
  "listVideos_try s userEmail accountType schoolName classCodes =
     (if \<not> truthy accountType
         \<or> \<not> list_ex (\<lambda>t. strict_eq (Some (JStr t)) accountType) [''student'', ''teacher'']
      then Inl (Error ''Invalid account type'')
      else (case s3_list s (metadataPrefix userEmail accountType schoolName) of
         Inl e \<Rightarrow> Inl e
       | Inr keys \<Rightarrow>
          if keys = [] then Inr []
          else (case all_results
                       (listVideos_item s accountType schoolName
                          (if classCodes = None then Some (JArr []) else classCodes)) keys of
             Inl e \<Rightarrow> Inl e
           | Inr videos \<Rightarrow> Inr (List.map_filter (\<lambda>v. v) videos))))"

text \<open>The outer \<^verbatim>\<open>catch\<close> returns the empty list.\<close>

definition listVideos ::
  "bucket \<Rightarrow> json option \<Rightarrow> json option \<Rightarrow> json option \<Rightarrow> json option \<Rightarrow> error + json list" where
  "listVideos s userEmail accountType schoolName classCodes =
     (case listVideos_try s userEmail accountType schoolName classCodes of
        Inl _ \<Rightarrow> Inr []
      | Inr videos \<Rightarrow> Inr videos)"

section \<open>Reading, updating and deleting a user\<close>

definition readUser_try :: "bucket \<Rightarrow> string \<Rightarrow> error + json \<times> json list" where
  "readUser_try s email =
     (case s3_get s (userKey email) of
        Inl e \<Rightarrow> Inl e
      | Inr b \<Rightarrow>
         (case JSON_parse b of
            Inl e \<Rightarrow> Inl e
          | Inr parsed \<Rightarrow>
             (case validateUser parsed of
                Inl e \<Rightarrow> Inl e
              | Inr user \<Rightarrow>
                 (case listVideos s (getField user ''email'') (getField user ''accountType'')
                         (getField user ''schoolName'') (getField user ''classCodesArray'') of
                    Inl e \<Rightarrow> Inl e
                  | Inr videos \<Rightarrow> Inr (user, videos)))))"

definition readUser :: "bucket \<Rightarrow> string \<Rightarrow> error + json \<times> json list" where
  "readUser s email =
     (case readUser_try s email of Inl _ \<Rightarrow> Inl (Error ''User not found'') | Inr r \<Rightarrow> Inr r)"

text \<open>What \<^verbatim>\<open>updateUser\<close> does to the parsed record before writing it back. The pushed
  value is written by \<^verbatim>\<open>JSON.stringify\<close>, which turns \<^verbatim>\<open>undefined\<close> in an array into
  \<^verbatim>\<open>null\<close> and writes none of the named properties of an array.\<close>

definition setClassCodes :: "json \<Rightarrow> json list \<Rightarrow> json" where
  "setClassCodes user codes =
     (case user of JObj kvs \<Rightarrow> JObj (AList.update ''classCodesArray'' (JArr codes) kvs)
      | _ \<Rightarrow> user)"

definition updateUser_add :: "json \<Rightarrow> json option \<Rightarrow> error + json" where
  "updateUser_add user classCode =
     (if user = JNull then Inl TypeError
      else if \<not> truthy (getField user ''classCodesArray'')
      then (case user of
              JObj _ \<Rightarrow> Inr (setClassCodes user [case classCode of None \<Rightarrow> JNull | Some c \<Rightarrow> c])
            | JArr _ \<Rightarrow> Inr user
            | _ \<Rightarrow> Inl TypeError)
      else (case getField user ''classCodesArray'' of
              Some (JArr codes) \<Rightarrow>
                Inr (setClassCodes user (codes @ [case classCode of None \<Rightarrow> JNull | Some c \<Rightarrow> c]))
            | _ \<Rightarrow> Inl TypeError))"

definition updateUser_delete :: "json \<Rightarrow> json option \<Rightarrow> error + json" where
  "updateUser_delete user classCode =
     (if user = JNull then Inl TypeError
      else (case js_includes (getField user ''classCodesArray'') classCode of
         Inl e \<Rightarrow> Inl e
       | Inr found \<Rightarrow>
          if \<not> found then Inl (Error ''Class code does not exist'')
          else (case getField user ''classCodesArray'' of
             Some (JArr codes) \<Rightarrow>
               Inr (setClassCodes user (filter (\<lambda>code. \<not> strict_eq (Some code) classCode) codes))
           | _ \<Rightarrow> Inl TypeError)))"

text \<open>From the parsed record on, \<^verbatim>\<open>updateUser\<close> is the same text in every version of
  the module: the change of the class codes, the write of the whole record, the message.\<close>

definition updateUser_parsed ::
  "bucket \<Rightarrow> string \<Rightarrow> json option \<Rightarrow> json option \<Rightarrow> json \<Rightarrow> (error + json) \<times> bucket" where
  "updateUser_parsed s email classCode action user =
     (case (if strict_eq action (Some (JStr ''add'')) then updateUser_add user classCode
            else if strict_eq action (Some (JStr ''delete'')) then updateUser_delete user classCode
            else Inl (Error ''Invalid action. Use \"add\" or \"delete\".'')) of
        Inl e \<Rightarrow> (Inl e, s)
      | Inr user' \<Rightarrow>
         (case s3_put s (userKey email) (Json user') of
            (Inl e, s') \<Rightarrow> (Inl e, s')
          | (Inr _, s') \<Rightarrow>
             (Inr (JObj [(''message'', JStr (''Class code '' @
                    (if strict_eq action (Some (JStr ''add'')) then ''added'' else ''deleted'')
                    @ '' successfully!''))]), s')))"

text \<open>The versions that send commands to the client (\<^verbatim>\<open>s3.send\<close>, AWS SDK v3) receive
  the body as a stream. \<^verbatim>\<open>listUsers\<close>, \<^verbatim>\<open>readUser\<close> and \<^verbatim>\<open>listVideos\<close> collect the
  chunks of the stream; \<^verbatim>\<open>updateUser\<close> calls \<^verbatim>\<open>Body.toString()\<close>, which for a stream
  is the text \<^verbatim>\<open>[object Object]\<close> whatever the object holds, and that is not JSON.\<close>

definition stream_toString :: "body \<Rightarrow> body" where
  "stream_toString b = Bytes ''[object Object]''"

definition updateUser ::
  "bucket \<Rightarrow> string \<Rightarrow> json option \<Rightarrow> json option \<Rightarrow> (error + json) \<times> bucket" where
  "updateUser s email classCode action =
     (case s3_get s (userKey email) of
        Inl e \<Rightarrow> (Inl e, s)
      | Inr b \<Rightarrow>
         (case JSON_parse (stream_toString b) of
            Inl e \<Rightarrow> (Inl e, s)
          | Inr user \<Rightarrow> updateUser_parsed s email classCode action user))"

text \<open>\<^verbatim>\<open>updateUser\<close> of \<^verbatim>\<open>src/db.js\<close> (\<^verbatim>\<open>s3.getObject (...).promise()\<close>, AWS SDK v2)
  receives the body as a buffer, and \<^verbatim>\<open>Body.toString()\<close> is the stored text.\<close>

definition updateUser_db ::
  "bucket \<Rightarrow> string \<Rightarrow> json option \<Rightarrow> json option \<Rightarrow> (error + json) \<times> bucket" where
  "updateUser_db s email classCode action =
     (case s3_get s (userKey email) of
        Inl e \<Rightarrow> (Inl e, s)
      | Inr b \<Rightarrow>
         (case JSON_parse b of
            Inl e \<Rightarrow> (Inl e, s)
          | Inr user \<Rightarrow> updateUser_parsed s email classCode action user))"

text \<open>\<^verbatim>\<open>Promise.all\<close> over the deletions: every request is sent, and the result is the
  first failure if there is one.\<close>

fun delete_each :: "bucket \<Rightarrow> string list \<Rightarrow> (error + unit) \<times> bucket" where
  "delete_each s [] = (Inr (), s)"
| "delete_each s (k # ks) =
     (case s3_delete s k of
        (r, s') \<Rightarrow> (case delete_each s' ks of
           (rs, s'') \<Rightarrow> ((case r of Inl e \<Rightarrow> Inl e | Inr _ \<Rightarrow> rs), s'')))"

text \<open>\<^verbatim>\<open>deleteUser\<close> calls \<^verbatim>\<open>listVideos (email)\<close>: the other three arguments are
  \<^verbatim>\<open>undefined\<close>.\<close>

definition deleteUser :: "bucket \<Rightarrow> string \<Rightarrow> (error + json) \<times> bucket" where
  "deleteUser s email =
     (case s3_delete s (userKey email) of
        (Inl e, s1) \<Rightarrow> (Inl e, s1)
      | (Inr _, s1) \<Rightarrow>
         (case listVideos s1 (Some (JStr email)) None None None of
            Inl e \<Rightarrow> (Inl e, s1)
          | Inr videos \<Rightarrow>
             (case delete_each s1
                     (map (\<lambda>video. ''videos/'' @ email @ ''/'' @ toStr (getField video ''fileId''))
                        videos) of
                (Inl e, s2) \<Rightarrow> (Inl e, s2)
              | (Inr _, s2) \<Rightarrow> (Inr (JObj [(''deleted'', JBool True)]), s2))))"

section \<open>Uploading a video\<close>

record videoData =
  vd_title :: "json option"
  vd_subject :: "json option"
  vd_userId :: "json option"
  vd_userEmail :: "json option"
  vd_classCode :: "json option"
  vd_accountType :: "json option"
  vd_schoolName :: "json option"
  vd_buffer :: string
  vd_mimetype :: string

text \<open>\<^verbatim>\<open>JSON.stringify\<close> writes no property whose value is \<^verbatim>\<open>undefined\<close>.\<close>

definition defined :: "(string \<times> json option) list \<Rightarrow> (string \<times> json) list" where
  "defined kvs = List.map_filter (\<lambda>(k, v). map_option (Pair k) v) kvs"

text \<open>\<open>videoPath\<close> is assigned for a student only; for every other account type it stays
  \<^verbatim>\<open>undefined\<close> and the template literals print it so.\<close>

definition videoPath :: "videoData \<Rightarrow> string" where
  "videoPath vd =
     (if strict_eq (vd_accountType vd) (Some (JStr ''student''))
      then ''videos/'' @ toStr (vd_schoolName vd) @ ''/'' @ toStr (vd_classCode vd) @ ''/''
             @ toStr (vd_userEmail vd) @ ''/'' @ toStr (vd_title vd)
      else ''undefined'')"

definition metadataOf :: "videoData \<Rightarrow> json" where
  "metadataOf vd = JObj (defined
     [(''title'', vd_title vd), (''subject'', vd_subject vd), (''userId'', vd_userId vd),
      (''userEmail'', vd_userEmail vd), (''classCode'', vd_classCode vd),
      (''contentType'', Some (JStr (vd_mimetype vd))), (''viewed'', Some (JBool False)),
      (''schoolName'', vd_schoolName vd), (''accountType'', vd_accountType vd),
      (''videoPath'', Some (JStr (videoPath vd @ ''.mp4'')))])"

text \<open>The metadata is written twice, then the payload; the response of a write names no
  key, so \<open>fileId\<close> and \<open>filename\<close> of the result are \<^verbatim>\<open>undefined\<close>.\<close>

definition uploadVideo_try :: "bucket \<Rightarrow> videoData \<Rightarrow> (error + json) \<times> bucket" where
  "uploadVideo_try s vd =
     (case s3_put s (videoPath vd @ ''.json'') (Json (metadataOf vd)) of
        (Inl e, s1) \<Rightarrow> (Inl e, s1)
      | (Inr _, s1) \<Rightarrow>
         (case s3_put s1 (videoPath vd @ ''.json'') (Json (metadataOf vd)) of
            (Inl e, s2) \<Rightarrow> (Inl e, s2)
          | (Inr _, s2) \<Rightarrow>
             (case s3_put s2 (videoPath vd @ ''.mp4'') (Bytes (vd_buffer vd)) of
                (Inl e, s3) \<Rightarrow> (Inl e, s3)
              | (Inr _, s3) \<Rightarrow> (Inr (JObj [(''metadata'', metadataOf vd)]), s3))))"

definition uploadVideo :: "bucket \<Rightarrow> videoData \<Rightarrow> (error + json) \<times> bucket" where
  "uploadVideo s vd =
     (case uploadVideo_try s vd of
        (Inl e, s') \<Rightarrow> (Inl (Error (''Failed to upload video: '' @ message e)), s')
      | (Inr r, s') \<Rightarrow> (Inr r, s'))"

section \<open>The upload route\<close>

text \<open>The request of \<^verbatim>\<open>POST /upload\<close>: the uploaded file (its buffer and MIME type) if
  there is one, and the text fields of the form.\<close>

record upload_request =
  req_file :: "(string \<times> string) option"
  req_email :: "string option"
  req_title :: "string option"
  req_subject :: "string option"
  req_classCode :: "string option"

datatype response = Status nat string | Redirect string

definition post_upload_videoData :: "upload_request \<Rightarrow> string \<times> string \<Rightarrow> json \<Rightarrow> videoData" where
  "post_upload_videoData req file user =
     \<lparr> vd_title = map_option JStr (req_title req),
       vd_subject = map_option JStr (req_subject req),
       vd_userId = getField user ''email'',
       vd_userEmail = getField user ''email'',
       vd_classCode = map_option JStr (req_classCode req),
       vd_accountType = getField user ''accountType'',
       vd_schoolName = getField user ''schoolName'',
       vd_buffer = fst file,
       vd_mimetype = snd file \<rparr>"

text \<open>The handler calls \<^verbatim>\<open>listVideos (user.email)\<close> with one argument before it looks
  for a video of the same title and class code.\<close>

definition post_upload :: "bucket \<Rightarrow> upload_request \<Rightarrow> response \<times> bucket" where
  "post_upload s req =
     (case req_file req of
        None \<Rightarrow> (Status 400 ''No video file uploaded'', s)
      | Some file \<Rightarrow>
         (case readUser s (toStr (map_option JStr (req_email req))) of
            Inl e \<Rightarrow> (Status 500 ''Failed to upload video'', s)
          | Inr (user, _) \<Rightarrow>
             (case listVideos s (getField user ''email'') None None None of
                Inl e \<Rightarrow> (Status 500 ''Failed to upload video'', s)
              | Inr videos \<Rightarrow>
                 if list_ex (\<lambda>video.
                       strict_eq (getField video ''title'') (map_option JStr (req_title req))
                     \<and> strict_eq (getField video ''classCode'') (map_option JStr (req_classCode req)))
                      videos
                 then (Status 400 ''A video with the same title and class code already exists'', s)
                 else (case uploadVideo s (post_upload_videoData req file user) of
                    (Inl e, s') \<Rightarrow> (Status 500 ''Failed to upload video'', s')
                  | (Inr _, s') \<Rightarrow> (Redirect ''/upload-.html'', s')))))"

section \<open>What the properties speak of\<close>

text \<open>The license validator as a pair of pure functions over the tables: whether a key
  is in the allowed set of an account type, read as the table lookup reads it.\<close>

definition isValidLicenseKeyFor :: "json option \<Rightarrow> json option \<Rightarrow> bool" where
  "isValidLicenseKeyFor accountType key =
     (case map_of validLicenseKeys (toStr accountType) of
        None \<Rightarrow> False
      | Some allowed \<Rightarrow> (case key of Some (JStr k) \<Rightarrow> k \<in> set allowed | _ \<Rightarrow> False))"

text \<open>The number of stored user records that carry a license key.\<close>

definition registeredCount :: "bucket \<Rightarrow> json option \<Rightarrow> nat" where
  "registeredCount s key =
     length (filter (\<lambda>(k, b). prefix ''users/'' k \<and>
                (case b of Json u \<Rightarrow> strict_eq (getField u ''licenseKey'') key | Bytes _ \<Rightarrow> False))
              (objects s))"

text \<open>The class codes of the stored record of a user, if it has a record with an array of
  class codes.\<close>

definition classCodesOf :: "bucket \<Rightarrow> string \<Rightarrow> json list option" where
  "classCodesOf s email =
     (case map_of (objects s) (userKey email) of
        Some (Json user) \<Rightarrow>
          (case getField user ''classCodesArray'' of Some (JArr codes) \<Rightarrow> Some codes | _ \<Rightarrow> None)
      | _ \<Rightarrow> None)"

section \<open>Example states\<close>

definition ex_empty :: bucket where
  "ex_empty = \<lparr> objects = [], failing = (\<lambda>_. False), signedUrl = (\<lambda>k c. ''https://s3/'' @ k) \<rparr>"

definition ex_alice :: "(string \<times> json) list" where
  "ex_alice =
     [(''firstName'', JStr ''Al''), (''email'', JStr ''a@b.com''),
      (''classCodesArray'', JArr [JStr ''7A'']), (''licenseKey'', JStr ''STUDENT_KEY_1''),
      (''accountType'', JStr ''student''), (''schoolName'', JStr ''Burnside'')]"

text \<open>The bucket after Alice has registered.\<close>

definition ex_registered :: bucket where
  "ex_registered = ex_empty \<lparr> objects := [(''users/a@b.com.json'', Json (JObj ex_alice))] \<rparr>"

text \<open>The bucket after Alice has uploaded the video Lab1 for class 7A.\<close>

definition ex_lab1 :: json where
  "ex_lab1 = JObj
     [(''title'', JStr ''Lab1''), (''subject'', JStr ''Sci''), (''userId'', JStr ''a@b.com''),
      (''userEmail'', JStr ''a@b.com''), (''classCode'', JStr ''7A''),
      (''contentType'', JStr ''video/mp4''), (''viewed'', JBool False),
      (''schoolName'', JStr ''Burnside''), (''accountType'', JStr ''student''),
      (''videoPath'', JStr ''videos/Burnside/7A/a@b.com/Lab1.mp4'')]"

definition ex_uploaded :: bucket where
  "ex_uploaded = ex_empty \<lparr> objects :=
     [(''users/a@b.com.json'', Json (JObj ex_alice)),
      (''videos/Burnside/7A/a@b.com/Lab1.json'', Json ex_lab1),
      (''videos/Burnside/7A/a@b.com/Lab1.mp4'', Bytes ''DATA1'')] \<rparr>"

definition ex_upload :: "string \<Rightarrow> upload_request" where
  "ex_upload buffer =
     \<lparr> req_file = Some (buffer, ''video/mp4''), req_email = Some ''a@b.com'',
       req_title = Some ''Lab1'', req_subject = Some ''Sci'', req_classCode = Some ''7A'' \<rparr>"

text \<open>Alice's registration data with another license key.\<close>

definition ex_alice_key :: "string \<Rightarrow> (string \<times> json) list" where
  "ex_alice_key key = AList.update ''licenseKey'' (JStr key) ex_alice"

text \<open>Alice's registration data with the account type given as an array of one string.\<close>

definition ex_alice_array :: "(string \<times> json) list" where
  "ex_alice_array = AList.update ''accountType'' (JArr [JStr ''student'']) ex_alice"

text \<open>A bucket in which ten users have registered with the key of Alice.\<close>

definition ex_user :: "string \<Rightarrow> string \<times> body" where
  "ex_user name =
     (userKey name, Json (JObj (AList.update ''email'' (JStr name) ex_alice)))"

definition ex_full :: bucket where
  "ex_full = ex_empty \<lparr> objects :=
     map ex_user [''u0'', ''u1'', ''u2'', ''u3'', ''u4'', ''u5'', ''u6'', ''u7'', ''u8'', ''u9''] \<rparr>"

text \<open>What a teacher of Burnside with class 7A is shown of Alice's video.\<close>

definition ex_listed :: json where
  "ex_listed = JObj
     [(''title'', JStr ''Lab1''), (''subject'', JStr ''Sci''), (''userId'', JStr ''a@b.com''),
      (''userEmail'', JStr ''a@b.com''), (''classCode'', JStr ''7A''),
      (''contentType'', JStr ''video/mp4''), (''viewed'', JBool False),
      (''schoolName'', JStr ''Burnside''), (''accountType'', JStr ''student''),
      (''videoPath'', JStr ''videos/Burnside/7A/a@b.com/Lab1.mp4''),
      (''videoUrl'', JStr ''https://s3/videos/Burnside/7A/a@b.com/Lab1.mp4''),
      (''videoKey'', JStr ''videos/Burnside/7A/a@b.com/Lab1.mp4''),
      (''mimeType'', JStr ''video/mp4''),
      (''metadataKey'', JStr ''videos/Burnside/7A/a@b.com/Lab1.json'')]"

text \<open>The bucket of Alice's upload without the payload, with one failing request, and
  with two more metadata objects, one that is not JSON and one that is a number.\<close>

definition ex_dangling :: bucket where
  "ex_dangling = ex_empty \<lparr> objects :=
     [(''users/a@b.com.json'', Json (JObj ex_alice)),
      (''videos/Burnside/7A/a@b.com/Lab1.json'', Json ex_lab1)] \<rparr>"

definition ex_outage :: "s3req \<Rightarrow> bucket" where
  "ex_outage req = ex_uploaded \<lparr> failing := (\<lambda>r. r = req) \<rparr>"

definition ex_malformed :: bucket where
  "ex_malformed = ex_empty \<lparr> objects :=
     [(''videos/Burnside/7A/a@b.com/Bad.json'', Bytes ''{''),
      (''videos/Burnside/7A/a@b.com/Num.json'', Json (JNum 5)),
      (''videos/Burnside/7A/a@b.com/Lab1.json'', Json ex_lab1),
      (''videos/Burnside/7A/a@b.com/Lab1.mp4'', Bytes ''DATA1'')] \<rparr>"

section \<open>Registration\<close>

lemmas s3_defs = s3_get_def s3_head_def s3_put_def s3_delete_def s3_list_def JSON_parse_def
lemmas js_defs = getField_def truthy_def toStr_def strict_eq_def primitive_def js_includes_def
lemmas ex_defs = ex_empty_def ex_alice_def ex_registered_def ex_lab1_def ex_uploaded_def
  ex_upload_def ex_alice_key_def ex_user_def ex_full_def ex_listed_def ex_dangling_def
  ex_outage_def ex_malformed_def ex_alice_array_def
lemmas user_defs = userKey_def validateUser_def listUsers_item_def listUsers_def
  createUser_try_def createUser_def validLicenseKeys_def licenseKeyLimits_def limitFor_def

lemma all_results_Inr:
  "all_results f xs = Inr ys \<Longrightarrow> list_all2 (\<lambda>x y. f x = Inr y) xs ys"
  by (induction xs arbitrary: ys) (auto split: sum.splits)

lemma listUsers_item_Inr:
  "listUsers_item s k = Inr u \<Longrightarrow> map_of (objects s) k = Some (Json u)"
  by (auto simp: listUsers_item_def s3_get_def JSON_parse_def validateUser_def
           split: sum.splits if_splits option.splits body.splits)

lemma count_parsed:
  "list_all2 (\<lambda>k u. m k = Some (Json u)) (map fst xs) us \<Longrightarrow>
   (\<forall>(k, b) \<in> set xs. m k = Some b) \<Longrightarrow>
   length (filter P us) =
   length (filter (\<lambda>(k, b). case b of Json u \<Rightarrow> P u | Bytes _ \<Rightarrow> False) xs)"
proof (induction xs arbitrary: us)
  case Nil
  then show ?case by simp
next
  case (Cons x xs)
  obtain k b where x: "x = (k, b)" by (cases x)
  from Cons.prems(1) obtain u us' where us: "us = u # us'" and u: "m k = Some (Json u)"
    and rest: "list_all2 (\<lambda>k u. m k = Some (Json u)) (map fst xs) us'"
    by (auto simp: x list_all2_Cons1)
  from Cons.prems(2) have b: "m k = Some b" by (simp add: x)
  with u have "b = Json u" by simp
  moreover have "length (filter P us') =
     length (filter (\<lambda>(k, b). case b of Json u \<Rightarrow> P u | Bytes _ \<Rightarrow> False) xs)"
    using Cons.IH [OF rest] Cons.prems(2) by simp
  ultimately show ?case by (simp add: us x)
qed

lemma listUsers_count:
  assumes "listUsers s = Inr users" and "distinct (map fst (objects s))"
  shows "length (filter (\<lambda>u. strict_eq (getField u ''licenseKey'') key) users)
         = registeredCount s key"
proof -
  let ?xs = "filter (\<lambda>(k, b). prefix ''users/'' k) (objects s)"
  have keys: "filter (prefix ''users/'') (map fst (objects s)) = map fst ?xs"
    by (induction "objects s") (auto simp: filter_map o_def case_prod_unfold)
  have all: "list_all2 (\<lambda>k u. map_of (objects s) k = Some (Json u)) (map fst ?xs) users"
  proof (cases "map fst ?xs = []")
    case True
    with assms(1) keys show ?thesis
      by (auto simp: listUsers_def s3_list_def split: if_splits)
  next
    case False
    with assms(1) keys have "all_results (listUsers_item s) (map fst ?xs) = Inr users"
      by (auto simp: listUsers_def s3_list_def split: if_splits)
    from all_results_Inr [OF this] show ?thesis
      by (rule list_all2_mono) (auto dest: listUsers_item_Inr)
  qed
  have "\<forall>(k, b) \<in> set ?xs. map_of (objects s) k = Some b"
    using assms(2) by auto
  from count_parsed [OF all this]
  have "length (filter (\<lambda>u. strict_eq (getField u ''licenseKey'') key) users) =
        length (filter (\<lambda>(k, b). case b of Json u \<Rightarrow> strict_eq (getField u ''licenseKey'') key | Bytes _ \<Rightarrow> False) ?xs)"
    .
  also have "\<dots> = registeredCount s key"
    by (simp add: registeredCount_def case_prod_unfold conj_commute)
  finally show ?thesis .
qed

lemma createUser_try_Inr:
  assumes "createUser_try s userData = (Inr user, s')"
  shows "\<exists>allowed users.
      map_of validLicenseKeys (toStr (map_of userData ''accountType'')) = Some allowed
    \<and> list_ex (\<lambda>k. strict_eq (Some (JStr k)) (map_of userData ''licenseKey'')) allowed
    \<and> listUsers s = Inr users
    \<and> length (filter (\<lambda>u. strict_eq (getField u ''licenseKey'') (map_of userData ''licenseKey'')) users)
        < limitFor (map_of userData ''licenseKey'')
    \<and> user = JObj userData
    \<and> s3_put s (userKey (toStr (map_of userData ''email''))) (Json (JObj userData)) = (Inr (), s')"
  using assms unfolding createUser_try_def Let_def
  by (auto split: sum.splits option.splits if_splits prod.splits)

lemma createUser_fails_unchanged:
  "createUser s userData = (Inl e, s') \<Longrightarrow> s' = s \<and> e = Error ''Failed to register user''"
  unfolding createUser_def createUser_try_def Let_def s3_put_def
  by (auto split: sum.splits option.splits if_splits prod.splits)


lemma allowed_iff:
  "map_of validLicenseKeys (toStr t) = Some allowed \<Longrightarrow>
   list_ex (\<lambda>k. strict_eq (Some (JStr k)) key) allowed = isValidLicenseKeyFor t key"
  by (auto simp: isValidLicenseKeyFor_def strict_eq_def primitive_def list_ex_iff
           split: option.splits json.splits)






text \<open>
  Claim C9, as stated, fails for an account type that is not a string: with the account
  type \<^verbatim>\<open>['student']\<close>, which is neither \<^verbatim>\<open>student\<close> nor \<^verbatim>\<open>teacher\<close>, the table lookup
  converts the array to the key \<^verbatim>\<open>student\<close>, and \<^verbatim>\<open>createUser\<close> succeeds and writes the
  record.
\<close>

theorem createUser_array_accountType:
  "map_of ex_alice_array ''accountType'' \<noteq> Some (JStr ''student'')
   \<and> map_of ex_alice_array ''accountType'' \<noteq> Some (JStr ''teacher'')
   \<and> fst (createUser ex_empty ex_alice_array) = Inr (JObj ex_alice_array)
   \<and> objects (snd (createUser ex_empty ex_alice_array))
       = [(''users/a@b.com.json'', Json (JObj ex_alice_array))]"
  by (simp add: user_defs s3_defs js_defs ex_defs)

text \<open>
  Claim C9, amended. When the account type of the registration data, converted to a
  string as the table lookup converts it (a string is itself, a missing field is
  \<^verbatim>\<open>undefined\<close>, an array is its elements joined by commas), is neither \<^verbatim>\<open>student\<close> nor
  \<^verbatim>\<open>teacher\<close>, \<^verbatim>\<open>createUser\<close> fails with the failure of the operation, not with the
  TypeError of the lookup, and the bucket is as it was: no user object is written.
\<close>

theorem createUser_unknown_accountType:
  assumes "toStr (map_of userData ''accountType'') \<noteq> ''student''"
      and "toStr (map_of userData ''accountType'') \<noteq> ''teacher''"
  shows "createUser s userData = (Inl (Error ''Failed to register user''), s)
       \<and> fst (createUser_try s userData) \<in> {Inl TypeError, Inl (Error ''Email already in use'')}
       \<and> objects (snd (createUser s userData)) = objects s"
proof -
  have "map_of validLicenseKeys (toStr (map_of userData ''accountType'')) = None"
    using assms by (simp add: validLicenseKeys_def)
  then show ?thesis
    by (auto simp: createUser_def createUser_try_def split: sum.splits)
qed

theorem createUser_unknown_accountType_witness:
  "toStr (map_of (AList.update ''accountType'' (JStr ''admin'') ex_alice) ''accountType'') \<noteq> ''student''
   \<and> toStr (map_of (AList.update ''accountType'' (JStr ''admin'') ex_alice) ''accountType'') \<noteq> ''teacher''
   \<and> createUser ex_empty (AList.update ''accountType'' (JStr ''admin'') ex_alice)
       = (Inl (Error ''Failed to register user''), ex_empty)
   \<and> fst (createUser_try ex_empty (AList.update ''accountType'' (JStr ''admin'') ex_alice)) = Inl TypeError"
proof -
  have a: "toStr (map_of (AList.update ''accountType'' (JStr ''admin'') ex_alice) ''accountType'') \<noteq> ''student''"
    and b: "toStr (map_of (AList.update ''accountType'' (JStr ''admin'') ex_alice) ''accountType'') \<noteq> ''teacher''"
    by (simp_all add: ex_defs toStr_def)
  have c: "fst (createUser_try ex_empty (AList.update ''accountType'' (JStr ''admin'') ex_alice)) = Inl TypeError"
    by (simp add: user_defs s3_defs js_defs ex_defs)
  from createUser_unknown_accountType [OF a b, of ex_empty] a b c show ?thesis
    by blast
qed


lemma not_allowed_3399:
  "\<not> isValidLicenseKeyFor t (Some (JStr ''3399''))"
  by (simp add: isValidLicenseKeyFor_def validLicenseKeys_def)

lemma createUser_cases:
  "(\<exists>user s'. createUser s userData = (Inr user, s') \<and> createUser_try s userData = (Inr user, s'))
   \<or> createUser s userData = (Inl (Error ''Failed to register user''), s)"
proof (cases "createUser s userData")
  case (Pair r s')
  show ?thesis
  proof (cases r)
    case (Inl e)
    with Pair createUser_fails_unchanged [of s userData e s'] show ?thesis by simp
  next
    case (Inr u)
    with Pair show ?thesis by (auto simp: createUser_def split: prod.splits sum.splits)
  qed
qed


text \<open>
  Claim C2. The three validation failures of \<^verbatim>\<open>createUser\<close> (the email has a stored
  record, the key is not in the allowed set of the account type, the key has reached its
  limit) are three different errors where they are thrown, and one and the same error
  where the caller receives them: the \<^verbatim>\<open>catch\<close> of the function replaces each by
  \<^verbatim>\<open>Failed to register user\<close>, the only error that \<^verbatim>\<open>createUser\<close> ever gives.
\<close>

theorem createUser_one_error_kind:
  "fst (createUser_try ex_registered ex_alice) = Inl (Error ''Email already in use'')
   \<and> fst (createUser_try ex_empty (ex_alice_key ''3399''))
       = Inl (Error ''Invalid license key for the selected account type.'')
   \<and> fst (createUser_try ex_empty (ex_alice_key ''STUDENT_KEY_2''))
       = Inl (Error ''License key limit reached. No more accounts can be registered with this key.'')
   \<and> fst (createUser ex_registered ex_alice) = Inl (Error ''Failed to register user'')
   \<and> fst (createUser ex_empty (ex_alice_key ''3399'')) = Inl (Error ''Failed to register user'')
   \<and> fst (createUser ex_empty (ex_alice_key ''STUDENT_KEY_2'')) = Inl (Error ''Failed to register user'')
   \<and> (fst (createUser s userData) = Inr (JObj userData)
        \<or> fst (createUser s userData) = Inl (Error ''Failed to register user''))"
proof -
  have g: "fst (createUser s userData) = Inr (JObj userData)
        \<or> fst (createUser s userData) = Inl (Error ''Failed to register user'')"
    using createUser_cases [of s userData] createUser_try_Inr [of s userData] by fastforce
  have 1: "fst (createUser_try ex_registered ex_alice) = Inl (Error ''Email already in use'')"
    by (simp add: user_defs s3_defs js_defs ex_defs)
  have 2: "fst (createUser_try ex_empty (ex_alice_key ''3399''))
       = Inl (Error ''Invalid license key for the selected account type.'')"
    by (simp add: user_defs s3_defs js_defs ex_defs)
  have 3: "fst (createUser_try ex_empty (ex_alice_key ''STUDENT_KEY_2''))
       = Inl (Error ''License key limit reached. No more accounts can be registered with this key.'')"
    by (simp add: user_defs s3_defs js_defs ex_defs)
  have w: "fst (createUser_try s u) = Inl e \<Longrightarrow> fst (createUser s u) = Inl (Error ''Failed to register user'')"
    for s u e
    by (cases "createUser_try s u") (simp add: createUser_def)
  from 1 2 3 w [OF 1] w [OF 2] w [OF 3] g show ?thesis by blast
qed

text \<open>
  Claim C3, as stated, fails at the first attempt: in the empty bucket no user carries
  the key \<^verbatim>\<open>3399\<close>, whose limit is 20, and a registration with it fails, for a student
  and for a teacher.
\<close>

theorem license_3399_first_attempt_fails:
  "registeredCount ex_empty (Some (JStr ''3399'')) = 0
   \<and> limitFor (Some (JStr ''3399'')) = 20
   \<and> fst (createUser ex_empty (ex_alice_key ''3399'')) = Inl (Error ''Failed to register user'')
   \<and> fst (createUser ex_empty (AList.update ''accountType'' (JStr ''teacher'') (ex_alice_key ''3399'')))
       = Inl (Error ''Failed to register user'')"
  by (simp add: registeredCount_def user_defs s3_defs js_defs ex_defs)

lemma ex_full_users:
  "\<exists>users. listUsers ex_full = Inr users"
  by (simp add: user_defs s3_defs js_defs ex_defs)

lemma ex_full_count: "registeredCount ex_full (Some (JStr ''STUDENT_KEY_1'')) = 10"
  by (simp add: registeredCount_def js_defs ex_defs userKey_def)


text \<open>
  Claim C3, amended. Every registration with the key \<^verbatim>\<open>3399\<close> fails, the first as well
  as the twenty-first, whatever the account type and the bucket: the key is in no allowed
  set, and for a student or a teacher whose email has no stored record the registration
  stops at that test, before the users are counted. A limit decides for a key of the
  allowed set: a student with the key \<^verbatim>\<open>STUDENT_KEY_1\<close>, of limit 10, whose email has no
  stored record is registered when fewer than 10 stored users carry the key and is rejected
  when 10 or more do (the users can be listed and the write is accepted).
\<close>

theorem license_limit_by_design:
  "(map_of userData ''licenseKey'' = Some (JStr ''3399'') \<longrightarrow>
      createUser s userData = (Inl (Error ''Failed to register user''), s))
   \<and> (map_of userData ''licenseKey'' = Some (JStr ''3399'')
      \<and> toStr (map_of userData ''accountType'') \<in> {''student'', ''teacher''}
      \<and> map_of (objects s) (userKey (toStr (map_of userData ''email''))) = None \<longrightarrow>
      createUser_try s userData
        = (Inl (Error ''Invalid license key for the selected account type.''), s))
   \<and> (map_of userData ''licenseKey'' = Some (JStr ''STUDENT_KEY_1'')
      \<and> map_of userData ''accountType'' = Some (JStr ''student'')
      \<and> distinct (map fst (objects s))
      \<and> map_of (objects s) (userKey (toStr (map_of userData ''email''))) = None
      \<and> listUsers s = Inr users
      \<and> \<not> failing s (PutObject (userKey (toStr (map_of userData ''email''))))  \<longrightarrow>
      limitFor (Some (JStr ''STUDENT_KEY_1'')) = 10
      \<and> (registeredCount s (Some (JStr ''STUDENT_KEY_1'')) < 10 \<longrightarrow>
           createUser s userData =
             (Inr (JObj userData),
              s\<lparr>objects := AList.update (userKey (toStr (map_of userData ''email'')))
                             (Json (JObj userData)) (objects s)\<rparr>))
      \<and> (registeredCount s (Some (JStr ''STUDENT_KEY_1'')) \<ge> 10 \<longrightarrow>
           createUser s userData = (Inl (Error ''Failed to register user''), s)))"
proof (intro conjI impI)
  assume k: "map_of userData ''licenseKey'' = Some (JStr ''3399'')"
  from createUser_cases [of s userData]
  show "createUser s userData = (Inl (Error ''Failed to register user''), s)"
  proof
    assume "\<exists>user s'. createUser s userData = (Inr user, s') \<and> createUser_try s userData = (Inr user, s')"
    then obtain user s' where "createUser_try s userData = (Inr user, s')" by blast
    from createUser_try_Inr [OF this] obtain allowed where
      "map_of validLicenseKeys (toStr (map_of userData ''accountType'')) = Some allowed"
      "list_ex (\<lambda>k. strict_eq (Some (JStr k)) (map_of userData ''licenseKey'')) allowed"
      by blast
    with allowed_iff [of "map_of userData ''accountType''" allowed "map_of userData ''licenseKey''"]
      not_allowed_3399 k
    show ?thesis by simp
  qed
next
  assume a: "map_of userData ''licenseKey'' = Some (JStr ''3399'')
      \<and> toStr (map_of userData ''accountType'') \<in> {''student'', ''teacher''}
      \<and> map_of (objects s) (userKey (toStr (map_of userData ''email''))) = None"
  then have g: "\<exists>e. s3_get s (userKey (toStr (map_of userData ''email''))) = Inl e"
    by (simp add: s3_get_def)
  from a obtain allowed where
    al: "map_of validLicenseKeys (toStr (map_of userData ''accountType'')) = Some allowed"
    by (auto simp: validLicenseKeys_def)
  from allowed_iff [OF al, of "map_of userData ''licenseKey''"] not_allowed_3399 a
  have "\<not> list_ex (\<lambda>k. strict_eq (Some (JStr k)) (map_of userData ''licenseKey'')) allowed"
    by simp
  with g al show "createUser_try s userData
        = (Inl (Error ''Invalid license key for the selected account type.''), s)"
    by (auto simp: createUser_try_def)
next
  assume a: "map_of userData ''licenseKey'' = Some (JStr ''STUDENT_KEY_1'')
      \<and> map_of userData ''accountType'' = Some (JStr ''student'')
      \<and> distinct (map fst (objects s))
      \<and> map_of (objects s) (userKey (toStr (map_of userData ''email''))) = None
      \<and> listUsers s = Inr users
      \<and> \<not> failing s (PutObject (userKey (toStr (map_of userData ''email''))))"
  show lim: "limitFor (Some (JStr ''STUDENT_KEY_1'')) = 10"
    by (simp add: limitFor_def licenseKeyLimits_def toStr_def)
  from a have g: "\<exists>e. s3_get s (userKey (toStr (map_of userData ''email''))) = Inl e"
    by (simp add: s3_get_def)
  from a have al: "map_of validLicenseKeys (toStr (map_of userData ''accountType''))
      = Some [''STUDENT_KEY_1'', ''STUDENT_KEY_2'']"
    by (simp add: validLicenseKeys_def toStr_def)
  from a have inc: "list_ex (\<lambda>k. strict_eq (Some (JStr k)) (map_of userData ''licenseKey''))
     [''STUDENT_KEY_1'', ''STUDENT_KEY_2'']"
    by (simp add: strict_eq_def primitive_def)
  from a listUsers_count [of s users "Some (JStr ''STUDENT_KEY_1'')"]
  have cnt: "length (filter (\<lambda>u. strict_eq (getField u ''licenseKey'') (map_of userData ''licenseKey'')) users)
      = registeredCount s (Some (JStr ''STUDENT_KEY_1''))"
    by simp
  {
    assume "registeredCount s (Some (JStr ''STUDENT_KEY_1'')) < 10"
    with g al inc cnt lim a
    show "createUser s userData =
             (Inr (JObj userData),
              s\<lparr>objects := AList.update (userKey (toStr (map_of userData ''email'')))
                             (Json (JObj userData)) (objects s)\<rparr>)"
      by (auto simp: createUser_def createUser_try_def s3_put_def)
  }
  {
    assume "registeredCount s (Some (JStr ''STUDENT_KEY_1'')) \<ge> 10"
    with g al inc cnt lim a
    show "createUser s userData = (Inl (Error ''Failed to register user''), s)"
      by (auto simp: createUser_def createUser_try_def s3_put_def)
  }
qed


theorem license_limit_by_design_witness:
  "map_of (ex_alice_key ''3399'') ''licenseKey'' = Some (JStr ''3399'')
   \<and> toStr (map_of (ex_alice_key ''3399'') ''accountType'') \<in> {''student'', ''teacher''}
   \<and> map_of (objects ex_empty) (userKey (toStr (map_of (ex_alice_key ''3399'') ''email''))) = None
   \<and> createUser ex_empty (ex_alice_key ''3399'') = (Inl (Error ''Failed to register user''), ex_empty)
   \<and> createUser_try ex_empty (ex_alice_key ''3399'')
        = (Inl (Error ''Invalid license key for the selected account type.''), ex_empty)
   \<and> registeredCount ex_empty (Some (JStr ''STUDENT_KEY_1'')) < 10
   \<and> createUser ex_empty ex_alice = (Inr (JObj ex_alice), ex_registered)
   \<and> registeredCount ex_full (Some (JStr ''STUDENT_KEY_1'')) \<ge> 10
   \<and> createUser ex_full ex_alice = (Inl (Error ''Failed to register user''), ex_full)"
proof -
  have k: "map_of (ex_alice_key ''3399'') ''licenseKey'' = Some (JStr ''3399'')"
    by (simp add: ex_defs)
  have t: "toStr (map_of (ex_alice_key ''3399'') ''accountType'') \<in> {''student'', ''teacher''}"
    by (simp add: ex_defs toStr_def)
  have n: "map_of (objects ex_empty) (userKey (toStr (map_of (ex_alice_key ''3399'') ''email''))) = None"
    by (simp add: ex_defs)
  have a: "map_of ex_alice ''licenseKey'' = Some (JStr ''STUDENT_KEY_1'')"
          "map_of ex_alice ''accountType'' = Some (JStr ''student'')"
    by (simp_all add: ex_defs)
  have e: "distinct (map fst (objects ex_empty))"
          "map_of (objects ex_empty) (userKey (toStr (map_of ex_alice ''email''))) = None"
          "listUsers ex_empty = Inr []"
          "\<not> failing ex_empty (PutObject (userKey (toStr (map_of ex_alice ''email''))))"
          "registeredCount ex_empty (Some (JStr ''STUDENT_KEY_1'')) < 10"
    by (simp_all add: ex_defs listUsers_def s3_list_def registeredCount_def)
  obtain users where u: "listUsers ex_full = Inr users" using ex_full_users by blast
  have f: "distinct (map fst (objects ex_full))"
          "map_of (objects ex_full) (userKey (toStr (map_of ex_alice ''email''))) = None"
          "\<not> failing ex_full (PutObject (userKey (toStr (map_of ex_alice ''email''))))"
    by (simp_all add: ex_defs userKey_def toStr_def)
  have c: "registeredCount ex_full (Some (JStr ''STUDENT_KEY_1'')) \<ge> 10"
    by (simp add: ex_full_count)
  note th = license_limit_by_design
  have 1: "createUser ex_empty (ex_alice_key ''3399'') = (Inl (Error ''Failed to register user''), ex_empty)"
    using th [of "ex_alice_key ''3399''" ex_empty] k by blast
  have 2: "createUser_try ex_empty (ex_alice_key ''3399'')
        = (Inl (Error ''Invalid license key for the selected account type.''), ex_empty)"
    using th [of "ex_alice_key ''3399''" ex_empty] k t n by blast
  have 3: "createUser ex_empty ex_alice = (Inr (JObj ex_alice),
       ex_empty\<lparr>objects := AList.update (userKey (toStr (map_of ex_alice ''email'')))
                             (Json (JObj ex_alice)) (objects ex_empty)\<rparr>)"
    using th [of ex_alice ex_empty "[]"] a e by blast
  have 4: "createUser ex_full ex_alice = (Inl (Error ''Failed to register user''), ex_full)"
    using th [of ex_alice ex_full users] a f u c by blast
  have 5: "ex_empty\<lparr>objects := AList.update (userKey (toStr (map_of ex_alice ''email'')))
                             (Json (JObj ex_alice)) (objects ex_empty)\<rparr> = ex_registered"
    by (simp add: ex_defs userKey_def toStr_def)
  from k t n 1 2 e(5) 3 c 4 show ?thesis unfolding 5 by blast
qed


section \<open>Class codes\<close>

lemma classCodesOf_SomeD:
  "classCodesOf s e = Some codes \<Longrightarrow>
   \<exists>kvs. map_of (objects s) (userKey e) = Some (Json (JObj kvs))
       \<and> map_of kvs ''classCodesArray'' = Some (JArr codes)"
  by (auto simp: classCodesOf_def getField_def split: option.splits body.splits json.splits)

lemma classCodesOf_put:
  "classCodesOf (s\<lparr>objects := AList.update (userKey e)
       (Json (JObj (AList.update ''classCodesArray'' (JArr codes) kvs))) (objects s)\<rparr>) e = Some codes"
  by (simp add: classCodesOf_def getField_def update_conv')

lemma updateUser_db_add_object:
  assumes "map_of (objects s) (userKey e) = Some (Json (JObj kvs))"
      and "map_of kvs ''classCodesArray'' = Some (JArr codes)"
      and "\<not> failing s (GetObject (userKey e))" and "\<not> failing s (PutObject (userKey e))"
  shows "updateUser_db s e (Some X) (Some (JStr ''add'')) =
     (Inr (JObj [(''message'', JStr ''Class code added successfully!'')]),
      s\<lparr>objects := AList.update (userKey e)
         (Json (JObj (AList.update ''classCodesArray'' (JArr (codes @ [X])) kvs))) (objects s)\<rparr>)"
  using assms
  by (simp add: updateUser_db_def updateUser_parsed_def updateUser_add_def setClassCodes_def
        s3_get_def s3_put_def JSON_parse_def getField_def truthy_def strict_eq_def primitive_def)

lemma updateUser_db_delete_object:
  assumes "map_of (objects s) (userKey e) = Some (Json (JObj kvs))"
      and "map_of kvs ''classCodesArray'' = Some (JArr codes)"
      and "X \<in> set codes" and "primitive (Some X)"
      and "\<not> failing s (GetObject (userKey e))" and "\<not> failing s (PutObject (userKey e))"
  shows "updateUser_db s e (Some X) (Some (JStr ''delete'')) =
     (Inr (JObj [(''message'', JStr ''Class code deleted successfully!'')]),
      s\<lparr>objects := AList.update (userKey e)
         (Json (JObj (AList.update ''classCodesArray'' (JArr (filter (\<lambda>c. c \<noteq> X) codes)) kvs)))
         (objects s)\<rparr>)"
proof -
  have inc: "js_includes (Some (JArr codes)) (Some X) = Inr True"
    using assms(3,4) by (auto simp: js_includes_def list_ex_iff strict_eq_def)
  have flt: "filter (\<lambda>code. \<not> strict_eq (Some code) (Some X)) codes
           = filter (\<lambda>c. c \<noteq> X) codes"
    using assms(4) by (intro filter_cong) (auto simp: strict_eq_def)
  have act: "\<not> strict_eq (Some (JStr ''delete'')) (Some (JStr ''add''))"
            "strict_eq (Some (JStr ''delete'')) (Some (JStr ''delete''))"
    by (simp_all add: strict_eq_def primitive_def)
  show ?thesis
    using assms(1,2,5,6) inc flt act
    by (simp add: updateUser_db_def updateUser_parsed_def updateUser_delete_def setClassCodes_def
        s3_get_def s3_put_def JSON_parse_def getField_def)
qed

text \<open>With the record read as text, as in \<^verbatim>\<open>src/db.js\<close>: for a stored user whose class
  codes are an array, \<^verbatim>\<open>add\<close> appends the code whether or not the array has it already,
  and \<^verbatim>\<open>delete\<close> removes every occurrence of a code that is a string, a number, a
  boolean or \<^verbatim>\<open>null\<close>.\<close>

lemma updateUser_db_appends_and_deletes_all:
  assumes "classCodesOf s e = Some codes"
      and "\<not> failing s (GetObject (userKey e))" and "\<not> failing s (PutObject (userKey e))"
  shows "(\<exists>r s1. updateUser_db s e (Some X) (Some (JStr ''add'')) = (Inr r, s1)
            \<and> classCodesOf s1 e = Some (codes @ [X]))
       \<and> (X \<in> set codes \<and> primitive (Some X) \<longrightarrow>
            (\<exists>r s2. updateUser_db s e (Some X) (Some (JStr ''delete'')) = (Inr r, s2)
               \<and> classCodesOf s2 e = Some (filter (\<lambda>c. c \<noteq> X) codes)))"
proof -
  from classCodesOf_SomeD [OF assms(1)] obtain kvs where
    rec: "map_of (objects s) (userKey e) = Some (Json (JObj kvs))"
    and arr: "map_of kvs ''classCodesArray'' = Some (JArr codes)"
    by blast
  have part1: "\<exists>r s1. updateUser_db s e (Some X) (Some (JStr ''add'')) = (Inr r, s1)
            \<and> classCodesOf s1 e = Some (codes @ [X])"
    using updateUser_db_add_object [OF rec arr assms(2,3), of X]
      classCodesOf_put [where s = s and e = e and codes = "codes @ [X]" and kvs = kvs] by blast
  have part2: "\<exists>r s2. updateUser_db s e (Some X) (Some (JStr ''delete'')) = (Inr r, s2)
               \<and> classCodesOf s2 e = Some (filter (\<lambda>c. c \<noteq> X) codes)"
    if "X \<in> set codes" "primitive (Some X)"
    using updateUser_db_delete_object [OF rec arr that assms(2,3)]
      classCodesOf_put [where s = s and e = e and codes = "filter (\<lambda>c. c \<noteq> X) codes" and kvs = kvs]
    by blast
  from part1 part2 show ?thesis by blast
qed

text \<open>With the record read from the stream by \<^verbatim>\<open>Body.toString()\<close>, nothing is parsed and
  nothing is written.\<close>

lemma updateUser_stream:
  "updateUser s email classCode action = (Inl S3Error, s)
   \<or> updateUser s email classCode action = (Inl SyntaxError, s)"
  by (auto simp: updateUser_def s3_get_def stream_toString_def JSON_parse_def
           split: option.splits)

lemmas update_defs = updateUser_def updateUser_db_def updateUser_parsed_def stream_toString_def
  updateUser_add_def updateUser_delete_def setClassCodes_def classCodesOf_def

lemma ex_codes: "classCodesOf ex_registered ''a@b.com'' = Some [JStr ''7A'']"
  by (simp add: classCodesOf_def getField_def userKey_def ex_defs)


text \<open>
  Claim C10. \<^verbatim>\<open>updateUser\<close> is written to append the code on \<^verbatim>\<open>add\<close> and to remove
  every occurrence of it on \<^verbatim>\<open>delete\<close>, and with the record read as text, as in
  \<^verbatim>\<open>src/db.js\<close>, it does: Alice's class codes 7A become 7A, 7A and then none. In the
  version the claim is about the record is read by \<^verbatim>\<open>Body.toString()\<close> from a stream:
  for Alice, and for every bucket, email, code and action, the call fails before the class
  codes are looked at, with the error of the read or a SyntaxError, and the bucket is as
  it was.
\<close>

theorem updateUser_never_parses:
  "fst (updateUser ex_registered ''a@b.com'' (Some (JStr ''7A'')) (Some (JStr ''add'')))
     = Inl SyntaxError
   \<and> classCodesOf (snd (updateUser ex_registered ''a@b.com'' (Some (JStr ''7A'')) (Some (JStr ''add''))))
        ''a@b.com'' = Some [JStr ''7A'']
   \<and> fst (updateUser ex_registered ''a@b.com'' (Some (JStr ''7A'')) (Some (JStr ''delete'')))
     = Inl SyntaxError
   \<and> classCodesOf (snd (updateUser ex_registered ''a@b.com'' (Some (JStr ''7A'')) (Some (JStr ''delete''))))
        ''a@b.com'' = Some [JStr ''7A'']
   \<and> (updateUser s email classCode action = (Inl S3Error, s)
        \<or> updateUser s email classCode action = (Inl SyntaxError, s))
   \<and> classCodesOf (snd (updateUser_db ex_registered ''a@b.com'' (Some (JStr ''7A'')) (Some (JStr ''add''))))
        ''a@b.com'' = Some [JStr ''7A'', JStr ''7A'']
   \<and> classCodesOf
        (snd (updateUser_db
               (snd (updateUser_db ex_registered ''a@b.com'' (Some (JStr ''7A'')) (Some (JStr ''add''))))
               ''a@b.com'' (Some (JStr ''7A'')) (Some (JStr ''delete''))))
        ''a@b.com'' = Some []"
proof -
  have 1: "updateUser ex_registered ''a@b.com'' c a = (Inl SyntaxError, ex_registered)" for c a
    by (simp add: updateUser_def stream_toString_def userKey_def s3_defs ex_defs)
  have 2: "classCodesOf (snd (updateUser_db ex_registered ''a@b.com'' (Some (JStr ''7A'')) (Some (JStr ''add''))))
        ''a@b.com'' = Some [JStr ''7A'', JStr ''7A'']"
    by (simp add: update_defs userKey_def s3_defs js_defs ex_defs list_ex_iff)
  have 3: "classCodesOf
        (snd (updateUser_db
               (snd (updateUser_db ex_registered ''a@b.com'' (Some (JStr ''7A'')) (Some (JStr ''add''))))
               ''a@b.com'' (Some (JStr ''7A'')) (Some (JStr ''delete''))))
        ''a@b.com'' = Some []"
    by (simp add: update_defs userKey_def s3_defs js_defs ex_defs list_ex_iff)
  show ?thesis
    unfolding 1 using ex_codes 2 3 updateUser_stream [of s email classCode action] by simp
qed




section \<open>Listing videos\<close>

lemmas video_defs = getSignedUrl_def orDefault_def spread_def listVideos_verify_def
  typeof_object_def verified_def listVideos_metadata_def listVideos_item_def metadataPrefix_def
  listVideos_try_def listVideos_def

lemmas upload_defs = videoPath_def metadataOf_def defined_def uploadVideo_try_def uploadVideo_def
  post_upload_videoData_def post_upload_def readUser_try_def readUser_def

lemma all_results_member:
  "all_results f xs = Inr ys \<Longrightarrow> y \<in> set ys \<Longrightarrow> \<exists>x \<in> set xs. f x = Inr y"
  by (induction xs arbitrary: ys) (auto split: sum.splits)

lemma all_results_Inl:
  "x \<in> set xs \<Longrightarrow> f x = Inl e \<Longrightarrow> \<exists>e'. all_results f xs = Inl e'"
  by (induction xs) (auto split: sum.splits)

lemma all_results_total:
  fixes f :: "'a \<Rightarrow> error + 'b option"
  shows "(\<And>x. x \<in> set xs \<Longrightarrow> \<exists>y. f x = Inr y) \<Longrightarrow>
     \<exists>ys. all_results f xs = Inr ys
        \<and> List.map_filter (\<lambda>v. v) ys
            = List.map_filter (\<lambda>k. case f k of Inr r \<Rightarrow> r | Inl _ \<Rightarrow> None) xs"
proof (induction xs)
  case Nil
  then show ?case by (simp add: List.map_filter_simps)
next
  case (Cons x xs)
  then obtain y where y: "f x = Inr y" by fastforce
  from Cons obtain ys where "all_results f xs = Inr ys"
    "List.map_filter (\<lambda>v. v) ys
       = List.map_filter (\<lambda>k. case f k of Inr r \<Rightarrow> r | Inl _ \<Rightarrow> None) xs"
    by fastforce
  with y show ?case by (cases y) (simp_all add: List.map_filter_simps)
qed

lemma listVideos_verify_Inr:
  assumes "listVideos_verify s itemKey metadata = Inr video"
  shows "\<exists>videoKey. getField metadata ''videoPath'' = Some (JStr videoKey)
       \<and> map_of (objects s) videoKey \<noteq> None
       \<and> map_of (objects s) itemKey \<noteq> None
       \<and> getField video ''videoKey'' = Some (JStr videoKey)
       \<and> getField video ''metadataKey'' = Some (JStr itemKey)"
proof -
  from assms have h1: "s3_head s itemKey = Inr ()"
    unfolding listVideos_verify_def by (auto split: sum.splits)
  from assms h1 obtain videoKey where vp: "getField metadata ''videoPath'' = Some (JStr videoKey)"
    unfolding listVideos_verify_def by (auto split: option.splits json.splits)
  from assms h1 vp have h2: "s3_head s videoKey = Inr ()"
    unfolding listVideos_verify_def by (auto split: sum.splits if_splits)
  from assms h1 vp h2 obtain videoUrl where
    v: "video = JObj (AList.update ''metadataKey'' (JStr itemKey)
                             (AList.update ''mimeType''
                                (orDefault (getField metadata ''contentType'') (JStr ''video/mp4''))
                             (AList.update ''videoKey'' (JStr videoKey)
                             (AList.update ''videoUrl'' videoUrl (spread metadata)))))"
    unfolding listVideos_verify_def by (auto split: sum.splits if_splits)
  have "getField video ''videoKey'' = Some (JStr videoKey)"
       "getField video ''metadataKey'' = Some (JStr itemKey)"
    unfolding v by (simp_all add: getField_def update_conv')
  moreover from h1 h2 have "map_of (objects s) videoKey \<noteq> None" "map_of (objects s) itemKey \<noteq> None"
    by (auto simp: s3_head_def split: if_splits option.splits)
  ultimately show ?thesis using vp by blast
qed

lemma listVideos_item_Some:
  assumes "listVideos_item s accountType schoolName classCodes itemKey = Inr (Some video)"
  shows "\<exists>metadata. map_of (objects s) itemKey = Some (Json metadata)
       \<and> listVideos_verify s itemKey metadata = Inr video"
  using assms unfolding listVideos_item_def listVideos_metadata_def verified_def s3_get_def JSON_parse_def
  by (auto split: sum.splits option.splits if_splits body.splits)

lemma listVideos_member:
  assumes "listVideos s userEmail accountType schoolName classCodes = Inr videos"
      and "video \<in> set videos"
  shows "\<exists>itemKey cc. listVideos_item s accountType schoolName cc itemKey = Inr (Some video)"
proof -
  from assms have "listVideos_try s userEmail accountType schoolName classCodes = Inr videos"
    by (auto simp: listVideos_def split: sum.splits)
  with assms(2) obtain keys vs where
    all: "all_results (listVideos_item s accountType schoolName
            (if classCodes = None then Some (JArr []) else classCodes)) keys = Inr vs"
    and vs: "videos = List.map_filter (\<lambda>v. v) vs"
    unfolding listVideos_try_def by (auto split: if_splits sum.splits)
  from assms(2) vs have "Some video \<in> set vs"
    by (auto simp: List.map_filter_def)
  from all_results_member [OF all this] show ?thesis by blast
qed

lemma ex_teacher_list:
  "listVideos ex_uploaded (Some (JStr ''t@b.com'')) (Some (JStr ''teacher''))
     (Some (JStr ''Burnside'')) (Some (JArr [JStr ''7A''])) = Inr [ex_listed]"
  by (simp add: video_defs s3_defs js_defs ex_defs suffix_to_prefix List.map_filter_simps)

lemma ex_dangling_list:
  "listVideos ex_dangling (Some (JStr ''t@b.com'')) (Some (JStr ''teacher''))
     (Some (JStr ''Burnside'')) (Some (JArr [JStr ''7A''])) = Inr []"
  by (simp add: video_defs s3_defs js_defs ex_defs suffix_to_prefix List.map_filter_simps)


lemma listVideos_total:
  "listVideos s userEmail accountType schoolName classCodes = Inr []
   \<or> (\<exists>videos. listVideos_try s userEmail accountType schoolName classCodes = Inr videos
        \<and> listVideos s userEmail accountType schoolName classCodes = Inr videos)"
  by (cases "listVideos_try s userEmail accountType schoolName classCodes")
     (simp_all add: listVideos_def)

lemma listVideos_try_Inl:
  "listVideos_try s userEmail accountType schoolName classCodes = Inl e \<Longrightarrow>
   listVideos s userEmail accountType schoolName classCodes = Inr []"
  by (simp add: listVideos_def)

lemma invalid_accountType:
  assumes "accountType \<noteq> Some (JStr ''student'')" and "accountType \<noteq> Some (JStr ''teacher'')"
  shows "\<not> list_ex (\<lambda>t. strict_eq (Some (JStr t)) accountType) [''student'', ''teacher'']"
  using assms by (auto simp: strict_eq_def)

lemma listVideos_item_readable:
  assumes "s3_get s itemKey = Inr b"
  shows "\<exists>r. listVideos_item s accountType schoolName classCodes itemKey = Inr r"
  using assms by (auto simp: listVideos_item_def split: sum.splits)

lemma listVideos_item_malformed:
  assumes "s3_get s itemKey = Inr (Bytes b)"
  shows "listVideos_item s accountType schoolName classCodes itemKey = Inr None"
  using assms by (simp add: listVideos_item_def listVideos_metadata_def JSON_parse_def)

lemma listVideos_item_not_object:
  assumes "s3_get s itemKey = Inr (Json m)" and "\<not> truthy (Some m) \<or> \<not> typeof_object m"
  shows "listVideos_item s accountType schoolName classCodes itemKey = Inr None"
  using assms by (auto simp: listVideos_item_def listVideos_metadata_def JSON_parse_def)

lemma listVideos_unreadable:
  assumes "itemKey \<in> fst ` set (objects s)"
      and "prefix (metadataPrefix userEmail accountType schoolName) itemKey"
      and "suffix ''.json'' itemKey" and "failing s (GetObject itemKey)"
  shows "listVideos s userEmail accountType schoolName classCodes = Inr []"
proof -
  let ?cc = "if classCodes = None then Some (JArr []) else classCodes"
  let ?keys = "filter (prefix (metadataPrefix userEmail accountType schoolName)) (map fst (objects s))"
  have k: "itemKey \<in> set ?keys" using assms(1,2) by auto
  have "listVideos_item s accountType schoolName ?cc itemKey = Inl S3Error"
    using assms(3,4) by (simp add: listVideos_item_def s3_get_def)
  from all_results_Inl [of itemKey ?keys "listVideos_item s accountType schoolName ?cc" S3Error,
      OF k this] obtain e where
    "all_results (listVideos_item s accountType schoolName ?cc) ?keys = Inl e" by blast
  moreover from k have "?keys \<noteq> []" by (metis empty_iff empty_set)
  ultimately have "\<exists>e. listVideos_try s userEmail accountType schoolName classCodes = Inl e"
    unfolding listVideos_try_def s3_list_def by simp
  then show ?thesis by (auto simp: listVideos_def)
qed

lemma listVideos_readable:
  assumes "accountType = Some (JStr ''student'') \<or> accountType = Some (JStr ''teacher'')"
      and "\<not> failing s (ListObjects (metadataPrefix userEmail accountType schoolName))"
      and "\<And>k. k \<in> fst ` set (objects s) \<Longrightarrow> suffix ''.json'' k \<Longrightarrow> \<not> failing s (GetObject k)"
  shows "listVideos s userEmail accountType schoolName classCodes =
     Inr (List.map_filter
       (\<lambda>k. case listVideos_item s accountType schoolName
                 (if classCodes = None then Some (JArr []) else classCodes) k of
              Inr r \<Rightarrow> r | Inl _ \<Rightarrow> None)
       (filter (prefix (metadataPrefix userEmail accountType schoolName)) (map fst (objects s))))"
proof -
  let ?cc = "if classCodes = None then Some (JArr []) else classCodes"
  let ?f = "listVideos_item s accountType schoolName ?cc"
  let ?keys = "filter (prefix (metadataPrefix userEmail accountType schoolName)) (map fst (objects s))"
  have ok: "\<exists>r. ?f k = Inr r" if "k \<in> set ?keys" for k
  proof (cases "suffix ''.json'' k")
    case False
    then show ?thesis by (simp add: listVideos_item_def)
  next
    case True
    from that have "k \<in> fst ` set (objects s)" by auto
    then obtain b where "map_of (objects s) k = Some b"
      by (metis domI dom_map_of_conv_image_fst option.exhaust_sel domIff)
    with assms(3) [OF \<open>k \<in> fst ` set (objects s)\<close> True] have "s3_get s k = Inr b"
      by (simp add: s3_get_def)
    from listVideos_item_readable [OF this] show ?thesis .
  qed
  from all_results_total [of ?keys ?f, OF ok] obtain ys where
    all: "all_results ?f ?keys = Inr ys"
    and mf: "List.map_filter (\<lambda>v. v) ys
          = List.map_filter (\<lambda>k. case ?f k of Inr r \<Rightarrow> r | Inl _ \<Rightarrow> None) ?keys"
    by blast
  have acc: "truthy accountType"
    "list_ex (\<lambda>t. strict_eq (Some (JStr t)) accountType) [''student'', ''teacher'']"
    using assms(1) by (auto simp: truthy_def strict_eq_def primitive_def)
  show ?thesis
    unfolding listVideos_def listVideos_try_def s3_list_def
    using assms(2) acc all mf by (simp add: List.map_filter_simps)
qed


lemma listVideos_item_unverified:
  assumes "s3_get s itemKey = Inr (Json m)" and "listVideos_verify s itemKey m = Inl e"
  shows "listVideos_item s accountType schoolName classCodes itemKey = Inr None"
  using assms
  by (auto simp: listVideos_item_def listVideos_metadata_def JSON_parse_def verified_def
           split: sum.splits)

lemma ex_malformed_list:
  "listVideos ex_malformed (Some (JStr ''t@b.com'')) (Some (JStr ''teacher''))
     (Some (JStr ''Burnside'')) (Some (JArr [JStr ''7A''])) = Inr [ex_listed]"
  by (simp add: video_defs s3_defs js_defs ex_defs suffix_to_prefix List.map_filter_simps)

lemma ex_teacher_prefix:
  "metadataPrefix (Some (JStr ''t@b.com'')) (Some (JStr ''teacher'')) (Some (JStr ''Burnside''))
     = ''videos/Burnside/''"
  by (simp add: metadataPrefix_def js_defs)

lemma listVideos_one_argument:
  "listVideos s userEmail None None None = Inr []"
  by (simp add: listVideos_def listVideos_try_def truthy_def)

lemma deleteUser_deletes_no_video:
  "objects (snd (deleteUser s email)) = objects s
   \<or> objects (snd (deleteUser s email)) = AList.delete (userKey email) (objects s)"
  by (simp add: deleteUser_def s3_delete_def listVideos_one_argument)


text \<open>When no \<^verbatim>\<open>HeadObject\<close> request is answered, as with an \<^verbatim>\<open>./awsS3\<close> that exports no
  \<^verbatim>\<open>HeadObjectCommand\<close>, no item passes the verification and every listing is empty.\<close>

lemma listVideos_verify_head:
  "listVideos_verify s itemKey metadata = Inr video \<Longrightarrow> \<not> failing s (HeadObject itemKey)"
  by (auto simp: listVideos_verify_def s3_head_def split: sum.splits if_splits)

lemma listVideos_without_HeadObject:
  assumes "\<And>k. failing s (HeadObject k)"
  shows "listVideos s userEmail accountType schoolName classCodes = Inr []"
proof -
  from listVideos_total [of s userEmail accountType schoolName classCodes]
  obtain videos where v: "listVideos s userEmail accountType schoolName classCodes = Inr videos"
    by blast
  have "video \<notin> set videos" for video
  proof
    assume "video \<in> set videos"
    from listVideos_member [OF v this] obtain itemKey cc where
      "listVideos_item s accountType schoolName cc itemKey = Inr (Some video)" by blast
    from listVideos_item_Some [OF this] obtain metadata where
      "listVideos_verify s itemKey metadata = Inr video" by blast
    from listVideos_verify_head [OF this] assms show False by blast
  qed
  then have "videos = []" by (cases videos) auto
  with v show ?thesis by simp
qed

text \<open>
  Claim C6. Every entry that \<^verbatim>\<open>listVideos\<close> returns was made from a metadata object of
  the bucket whose \<open>videoPath\<close> names an object that the bucket holds, and the entry
  carries that key as its \<open>videoKey\<close>; a metadata object whose \<open>videoPath\<close> names no
  stored object gives no entry.
\<close>

theorem listVideos_payload_present:
  assumes "listVideos s userEmail accountType schoolName classCodes = Inr videos"
  shows "(\<forall>video \<in> set videos. \<exists>itemKey metadata videoKey.
             map_of (objects s) itemKey = Some (Json metadata)
           \<and> getField metadata ''videoPath'' = Some (JStr videoKey)
           \<and> getField video ''metadataKey'' = Some (JStr itemKey)
           \<and> getField video ''videoKey'' = Some (JStr videoKey)
           \<and> map_of (objects s) videoKey \<noteq> None)
       \<and> (\<forall>itemKey metadata.
             map_of (objects s) itemKey = Some (Json metadata)
           \<and> (\<forall>videoKey. getField metadata ''videoPath'' = Some (JStr videoKey)
                  \<longrightarrow> map_of (objects s) videoKey = None)
           \<longrightarrow> (\<forall>video \<in> set videos. getField video ''metadataKey'' \<noteq> Some (JStr itemKey)))"
proof -
  have 1: "\<exists>itemKey metadata videoKey.
             map_of (objects s) itemKey = Some (Json metadata)
           \<and> getField metadata ''videoPath'' = Some (JStr videoKey)
           \<and> getField video ''metadataKey'' = Some (JStr itemKey)
           \<and> getField video ''videoKey'' = Some (JStr videoKey)
           \<and> map_of (objects s) videoKey \<noteq> None" if "video \<in> set videos" for video
  proof -
    from listVideos_member [OF assms that] obtain itemKey cc where
      "listVideos_item s accountType schoolName cc itemKey = Inr (Some video)" by blast
    from listVideos_item_Some [OF this] obtain metadata where
      m: "map_of (objects s) itemKey = Some (Json metadata)"
      and v: "listVideos_verify s itemKey metadata = Inr video" by blast
    from listVideos_verify_Inr [OF v] m show ?thesis by blast
  qed
  have 2: "getField video ''metadataKey'' \<noteq> Some (JStr itemKey)"
    if d: "map_of (objects s) itemKey = Some (Json metadata)"
       "\<forall>videoKey. getField metadata ''videoPath'' = Some (JStr videoKey)
                  \<longrightarrow> map_of (objects s) videoKey = None"
       and v: "video \<in> set videos" for itemKey metadata video
  proof
    assume k: "getField video ''metadataKey'' = Some (JStr itemKey)"
    from 1 [OF v] obtain itemKey' metadata' videoKey where
      *: "map_of (objects s) itemKey' = Some (Json metadata')"
         "getField metadata' ''videoPath'' = Some (JStr videoKey)"
         "getField video ''metadataKey'' = Some (JStr itemKey')"
         "map_of (objects s) videoKey \<noteq> None" by blast
    with k have "itemKey' = itemKey" by simp
    with * d(1) have "metadata' = metadata" by simp
    with * d(2) show False by auto
  qed
  from 1 2 show ?thesis by blast
qed

theorem listVideos_payload_present_witness:
  "listVideos ex_uploaded (Some (JStr ''t@b.com'')) (Some (JStr ''teacher''))
     (Some (JStr ''Burnside'')) (Some (JArr [JStr ''7A''])) = Inr [ex_listed]
   \<and> ex_listed \<in> set [ex_listed]
   \<and> (\<exists>itemKey metadata videoKey.
             map_of (objects ex_uploaded) itemKey = Some (Json metadata)
           \<and> getField metadata ''videoPath'' = Some (JStr videoKey)
           \<and> getField ex_listed ''metadataKey'' = Some (JStr itemKey)
           \<and> getField ex_listed ''videoKey'' = Some (JStr videoKey)
           \<and> map_of (objects ex_uploaded) videoKey \<noteq> None)
   \<and> listVideos ex_dangling (Some (JStr ''t@b.com'')) (Some (JStr ''teacher''))
     (Some (JStr ''Burnside'')) (Some (JArr [JStr ''7A''])) = Inr []
   \<and> map_of (objects ex_dangling) ''videos/Burnside/7A/a@b.com/Lab1.json'' = Some (Json ex_lab1)
   \<and> getField ex_lab1 ''videoPath'' = Some (JStr ''videos/Burnside/7A/a@b.com/Lab1.mp4'')
   \<and> map_of (objects ex_dangling) ''videos/Burnside/7A/a@b.com/Lab1.mp4'' = None"
proof -
  have m: "ex_listed \<in> set [ex_listed]" by simp
  have d: "map_of (objects ex_dangling) ''videos/Burnside/7A/a@b.com/Lab1.json'' = Some (Json ex_lab1)"
    "getField ex_lab1 ''videoPath'' = Some (JStr ''videos/Burnside/7A/a@b.com/Lab1.mp4'')"
    "map_of (objects ex_dangling) ''videos/Burnside/7A/a@b.com/Lab1.mp4'' = None"
    by (simp_all add: ex_defs getField_def)
  from listVideos_payload_present [OF ex_teacher_list] m
  have "\<exists>itemKey metadata videoKey.
             map_of (objects ex_uploaded) itemKey = Some (Json metadata)
           \<and> getField metadata ''videoPath'' = Some (JStr videoKey)
           \<and> getField ex_listed ''metadataKey'' = Some (JStr itemKey)
           \<and> getField ex_listed ''videoKey'' = Some (JStr videoKey)
           \<and> map_of (objects ex_uploaded) videoKey \<noteq> None"
    by blast
  with ex_teacher_list ex_dangling_list m d show ?thesis by blast
qed


text \<open>
  Claim C7. \<^verbatim>\<open>listVideos\<close> returns a list for every argument and every bucket. The list
  is empty for an account type that is neither \<^verbatim>\<open>student\<close> nor \<^verbatim>\<open>teacher\<close>, when the
  listing request fails, and when a listed \<^verbatim>\<open>.json\<close> object cannot be read (its read is
  outside the item's own \<^verbatim>\<open>try\<close>). An item that can be read never rejects: content
  that is not JSON, metadata that is not an object and a failed verification of the two
  files each make the item \<^verbatim>\<open>null\<close>; and when every listed \<^verbatim>\<open>.json\<close> object can be
  read, the result is the items that are not \<^verbatim>\<open>null\<close>, in listing order.
\<close>

theorem listVideos_never_throws:
  "(\<exists>videos. listVideos s userEmail accountType schoolName classCodes = Inr videos)
   \<and> (accountType \<noteq> Some (JStr ''student'') \<and> accountType \<noteq> Some (JStr ''teacher'') \<longrightarrow>
        listVideos s userEmail accountType schoolName classCodes = Inr [])
   \<and> (failing s (ListObjects (metadataPrefix userEmail accountType schoolName)) \<longrightarrow>
        listVideos s userEmail accountType schoolName classCodes = Inr [])
   \<and> (\<forall>itemKey. itemKey \<in> fst ` set (objects s)
          \<and> prefix (metadataPrefix userEmail accountType schoolName) itemKey
          \<and> suffix ''.json'' itemKey \<and> failing s (GetObject itemKey) \<longrightarrow>
        listVideos s userEmail accountType schoolName classCodes = Inr [])
   \<and> (\<forall>itemKey b. s3_get s itemKey = Inr b \<longrightarrow>
        (\<exists>r. listVideos_item s accountType schoolName classCodes itemKey = Inr r))
   \<and> (\<forall>itemKey b. s3_get s itemKey = Inr (Bytes b) \<longrightarrow>
        listVideos_item s accountType schoolName classCodes itemKey = Inr None)
   \<and> (\<forall>itemKey m. s3_get s itemKey = Inr (Json m) \<and> (\<not> truthy (Some m) \<or> \<not> typeof_object m) \<longrightarrow>
        listVideos_item s accountType schoolName classCodes itemKey = Inr None)
   \<and> (\<forall>itemKey m e. s3_get s itemKey = Inr (Json m) \<and> listVideos_verify s itemKey m = Inl e \<longrightarrow>
        listVideos_item s accountType schoolName classCodes itemKey = Inr None)
   \<and> ((accountType = Some (JStr ''student'') \<or> accountType = Some (JStr ''teacher''))
       \<and> \<not> failing s (ListObjects (metadataPrefix userEmail accountType schoolName))
       \<and> (\<forall>k \<in> fst ` set (objects s). suffix ''.json'' k \<longrightarrow> \<not> failing s (GetObject k)) \<longrightarrow>
        listVideos s userEmail accountType schoolName classCodes =
          Inr (List.map_filter
            (\<lambda>k. case listVideos_item s accountType schoolName
                      (if classCodes = None then Some (JArr []) else classCodes) k of
                   Inr r \<Rightarrow> r | Inl _ \<Rightarrow> None)
            (filter (prefix (metadataPrefix userEmail accountType schoolName))
               (map fst (objects s)))))"
proof (intro conjI impI allI)
  show "\<exists>videos. listVideos s userEmail accountType schoolName classCodes = Inr videos"
    using listVideos_total [of s userEmail accountType schoolName classCodes] by blast
next
  assume "accountType \<noteq> Some (JStr ''student'') \<and> accountType \<noteq> Some (JStr ''teacher'')"
  then have "\<not> list_ex (\<lambda>t. strict_eq (Some (JStr t)) accountType) [''student'', ''teacher'']"
    using invalid_accountType by blast
  then show "listVideos s userEmail accountType schoolName classCodes = Inr []"
    by (simp add: listVideos_def listVideos_try_def)
next
  assume "failing s (ListObjects (metadataPrefix userEmail accountType schoolName))"
  then have "\<exists>e. listVideos_try s userEmail accountType schoolName classCodes = Inl e"
    by (simp add: listVideos_try_def s3_list_def)
  then show "listVideos s userEmail accountType schoolName classCodes = Inr []"
    using listVideos_try_Inl by blast
next
  fix itemKey
  assume "itemKey \<in> fst ` set (objects s)
          \<and> prefix (metadataPrefix userEmail accountType schoolName) itemKey
          \<and> suffix ''.json'' itemKey \<and> failing s (GetObject itemKey)"
  then show "listVideos s userEmail accountType schoolName classCodes = Inr []"
    using listVideos_unreadable by blast
next
  fix itemKey b
  assume "s3_get s itemKey = Inr b"
  then show "\<exists>r. listVideos_item s accountType schoolName classCodes itemKey = Inr r"
    by (rule listVideos_item_readable)
next
  fix itemKey b
  assume "s3_get s itemKey = Inr (Bytes b)"
  then show "listVideos_item s accountType schoolName classCodes itemKey = Inr None"
    by (rule listVideos_item_malformed)
next
  fix itemKey m
  assume "s3_get s itemKey = Inr (Json m) \<and> (\<not> truthy (Some m) \<or> \<not> typeof_object m)"
  then show "listVideos_item s accountType schoolName classCodes itemKey = Inr None"
    using listVideos_item_not_object by blast
next
  fix itemKey m e
  assume "s3_get s itemKey = Inr (Json m) \<and> listVideos_verify s itemKey m = Inl e"
  then show "listVideos_item s accountType schoolName classCodes itemKey = Inr None"
    using listVideos_item_unverified by blast
next
  assume a: "(accountType = Some (JStr ''student'') \<or> accountType = Some (JStr ''teacher''))
       \<and> \<not> failing s (ListObjects (metadataPrefix userEmail accountType schoolName))
       \<and> (\<forall>k \<in> fst ` set (objects s). suffix ''.json'' k \<longrightarrow> \<not> failing s (GetObject k))"
  show "listVideos s userEmail accountType schoolName classCodes =
          Inr (List.map_filter
            (\<lambda>k. case listVideos_item s accountType schoolName
                      (if classCodes = None then Some (JArr []) else classCodes) k of
                   Inr r \<Rightarrow> r | Inl _ \<Rightarrow> None)
            (filter (prefix (metadataPrefix userEmail accountType schoolName))
               (map fst (objects s))))"
    by (rule listVideos_readable) (use a in blast)+
qed

theorem listVideos_never_throws_witness:
  "listVideos ex_uploaded (Some (JStr ''a@b.com'')) None None None = Inr []
   \<and> failing (ex_outage (ListObjects ''videos/Burnside/'')) (ListObjects ''videos/Burnside/'')
   \<and> listVideos (ex_outage (ListObjects ''videos/Burnside/'')) (Some (JStr ''t@b.com''))
        (Some (JStr ''teacher'')) (Some (JStr ''Burnside'')) (Some (JArr [JStr ''7A''])) = Inr []
   \<and> failing (ex_outage (GetObject ''videos/Burnside/7A/a@b.com/Lab1.json''))
        (GetObject ''videos/Burnside/7A/a@b.com/Lab1.json'')
   \<and> listVideos (ex_outage (GetObject ''videos/Burnside/7A/a@b.com/Lab1.json'')) (Some (JStr ''t@b.com''))
        (Some (JStr ''teacher'')) (Some (JStr ''Burnside'')) (Some (JArr [JStr ''7A''])) = Inr []
   \<and> s3_get ex_malformed ''videos/Burnside/7A/a@b.com/Bad.json'' = Inr (Bytes ''{'')
   \<and> listVideos_item ex_malformed (Some (JStr ''teacher'')) (Some (JStr ''Burnside''))
        (Some (JArr [JStr ''7A''])) ''videos/Burnside/7A/a@b.com/Bad.json'' = Inr None
   \<and> s3_get ex_malformed ''videos/Burnside/7A/a@b.com/Num.json'' = Inr (Json (JNum 5))
   \<and> listVideos_item ex_malformed (Some (JStr ''teacher'')) (Some (JStr ''Burnside''))
        (Some (JArr [JStr ''7A''])) ''videos/Burnside/7A/a@b.com/Num.json'' = Inr None
   \<and> s3_get ex_dangling ''videos/Burnside/7A/a@b.com/Lab1.json'' = Inr (Json ex_lab1)
   \<and> listVideos_verify ex_dangling ''videos/Burnside/7A/a@b.com/Lab1.json'' ex_lab1 = Inl S3Error
   \<and> listVideos_item ex_dangling (Some (JStr ''teacher'')) (Some (JStr ''Burnside''))
        (Some (JArr [JStr ''7A''])) ''videos/Burnside/7A/a@b.com/Lab1.json'' = Inr None
   \<and> listVideos ex_malformed (Some (JStr ''t@b.com'')) (Some (JStr ''teacher''))
        (Some (JStr ''Burnside'')) (Some (JArr [JStr ''7A''])) = Inr [ex_listed]"
proof -
  note th = listVideos_never_throws
  let ?t = "Some (JStr ''teacher'')" and ?b = "Some (JStr ''Burnside'')"
  let ?e = "Some (JStr ''t@b.com'')" and ?c = "Some (JArr [JStr ''7A''])"
  let ?lab = "''videos/Burnside/7A/a@b.com/Lab1.json''"
  have 1: "listVideos ex_uploaded (Some (JStr ''a@b.com'')) None None None = Inr []"
    using th [of ex_uploaded "Some (JStr ''a@b.com'')" None None None] by simp
  have f2: "failing (ex_outage (ListObjects ''videos/Burnside/'')) (ListObjects ''videos/Burnside/'')"
    by (simp add: ex_outage_def)
  have 2: "listVideos (ex_outage (ListObjects ''videos/Burnside/'')) ?e ?t ?b ?c = Inr []"
    using th [of "ex_outage (ListObjects ''videos/Burnside/'')" ?e ?t ?b ?c] f2
    unfolding ex_teacher_prefix by blast
  have f3: "failing (ex_outage (GetObject ?lab)) (GetObject ?lab)"
    by (simp add: ex_outage_def)
  have k3: "?lab \<in> fst ` set (objects (ex_outage (GetObject ?lab)))"
    "prefix ''videos/Burnside/'' ?lab" "suffix ''.json'' ?lab"
    by (simp_all add: ex_outage_def ex_uploaded_def suffix_to_prefix)
  have 3: "listVideos (ex_outage (GetObject ?lab)) ?e ?t ?b ?c = Inr []"
    using th [of "ex_outage (GetObject ?lab)" ?e ?t ?b ?c] f3 k3
    unfolding ex_teacher_prefix by blast
  have g4: "s3_get ex_malformed ''videos/Burnside/7A/a@b.com/Bad.json'' = Inr (Bytes ''{'')"
    by (simp add: s3_get_def ex_malformed_def ex_empty_def)
  have 4: "listVideos_item ex_malformed ?t ?b ?c ''videos/Burnside/7A/a@b.com/Bad.json'' = Inr None"
    using th [of ex_malformed ?e ?t ?b ?c] g4 by blast
  have g5: "s3_get ex_malformed ''videos/Burnside/7A/a@b.com/Num.json'' = Inr (Json (JNum 5))"
    by (simp add: s3_get_def ex_malformed_def ex_empty_def)
  have n5: "\<not> typeof_object (JNum 5)" by (simp add: typeof_object_def)
  have 5: "listVideos_item ex_malformed ?t ?b ?c ''videos/Burnside/7A/a@b.com/Num.json'' = Inr None"
    using th [of ex_malformed ?e ?t ?b ?c] g5 n5 by blast
  have g6: "s3_get ex_dangling ?lab = Inr (Json ex_lab1)"
    by (simp add: s3_get_def ex_dangling_def ex_empty_def)
  have v6: "listVideos_verify ex_dangling ?lab ex_lab1 = Inl S3Error"
    by (simp add: listVideos_verify_def s3_head_def getField_def ex_dangling_def ex_empty_def ex_lab1_def)
  have 6: "listVideos_item ex_dangling ?t ?b ?c ?lab = Inr None"
    using th [of ex_dangling ?e ?t ?b ?c] g6 v6 by blast
  from 1 f2 2 f3 3 g4 4 g5 5 g6 v6 6 ex_malformed_list show ?thesis by blast
qed


section \<open>Deleting a user and uploading twice\<close>

text \<open>
  Claim C4. \<^verbatim>\<open>deleteUser\<close> removes the record of the user, so that \<^verbatim>\<open>readUser\<close> then
  fails with \<^verbatim>\<open>User not found\<close>, but the videos of the user stay: it asks
  \<^verbatim>\<open>listVideos\<close> with the email alone, which answers with the empty list. After Alice
  is deleted both objects of her video are still in the bucket; and in every bucket, for
  every email, \<^verbatim>\<open>deleteUser\<close> removes at most the record of the user.
\<close>

theorem deleteUser_leaves_videos:
  "fst (deleteUser ex_uploaded ''a@b.com'') = Inr (JObj [(''deleted'', JBool True)])
   \<and> readUser (snd (deleteUser ex_uploaded ''a@b.com'')) ''a@b.com'' = Inl (Error ''User not found'')
   \<and> objects (snd (deleteUser ex_uploaded ''a@b.com'')) =
        [(''videos/Burnside/7A/a@b.com/Lab1.json'', Json ex_lab1),
         (''videos/Burnside/7A/a@b.com/Lab1.mp4'', Bytes ''DATA1'')]
   \<and> getField ex_lab1 ''userEmail'' = Some (JStr ''a@b.com'')
   \<and> listVideos (snd (s3_delete ex_uploaded (userKey ''a@b.com''))) (Some (JStr ''a@b.com''))
        None None None = Inr []
   \<and> (objects (snd (deleteUser s email)) = objects s
        \<or> objects (snd (deleteUser s email)) = AList.delete (userKey email) (objects s))"
proof -
  have d: "deleteUser ex_uploaded ''a@b.com'' =
     (Inr (JObj [(''deleted'', JBool True)]),
      ex_uploaded\<lparr>objects := [(''videos/Burnside/7A/a@b.com/Lab1.json'', Json ex_lab1),
         (''videos/Burnside/7A/a@b.com/Lab1.mp4'', Bytes ''DATA1'')]\<rparr>)"
    by (simp add: deleteUser_def s3_delete_def listVideos_one_argument userKey_def
          ex_uploaded_def ex_empty_def AList.delete_eq)
  have r: "readUser (ex_uploaded\<lparr>objects := [(''videos/Burnside/7A/a@b.com/Lab1.json'', Json ex_lab1),
         (''videos/Burnside/7A/a@b.com/Lab1.mp4'', Bytes ''DATA1'')]\<rparr>) ''a@b.com''
       = Inl (Error ''User not found'')"
    by (simp add: readUser_def readUser_try_def s3_get_def userKey_def ex_uploaded_def ex_empty_def)
  have g: "getField ex_lab1 ''userEmail'' = Some (JStr ''a@b.com'')"
    by (simp add: getField_def ex_lab1_def)
  show ?thesis unfolding d
    using r g listVideos_one_argument deleteUser_deletes_no_video [of s email] by simp
qed


text \<open>
  Claim C5. The upload route looks for a video of the same title and class code in
  \<^verbatim>\<open>listVideos (user.email)\<close>, which is the empty list in every bucket and for every
  user, so a second upload of Lab1 for
  class 7A by Alice is not rejected: the route redirects as after the first upload, and
  the payload in the bucket is the second one.
\<close>

theorem post_upload_accepts_duplicate:
  "post_upload ex_registered (ex_upload ''DATA1'') = (Redirect ''/upload-.html'', ex_uploaded)
   \<and> listVideos s userEmail None None None = Inr []
   \<and> fst (post_upload ex_uploaded (ex_upload ''DATA2'')) = Redirect ''/upload-.html''
   \<and> objects (snd (post_upload ex_uploaded (ex_upload ''DATA2''))) =
        [(''users/a@b.com.json'', Json (JObj ex_alice)),
         (''videos/Burnside/7A/a@b.com/Lab1.json'', Json ex_lab1),
         (''videos/Burnside/7A/a@b.com/Lab1.mp4'', Bytes ''DATA2'')]
   \<and> objects (snd (post_upload ex_uploaded (ex_upload ''DATA2''))) \<noteq> objects ex_uploaded"
proof -
  have 1: "post_upload ex_registered (ex_upload ''DATA1'') = (Redirect ''/upload-.html'', ex_uploaded)"
    by (simp add: upload_defs video_defs user_defs s3_defs js_defs ex_defs List.map_filter_simps)
  have 2: "post_upload ex_uploaded (ex_upload ''DATA2'') =
     (Redirect ''/upload-.html'',
      ex_uploaded\<lparr>objects := [(''users/a@b.com.json'', Json (JObj ex_alice)),
         (''videos/Burnside/7A/a@b.com/Lab1.json'', Json ex_lab1),
         (''videos/Burnside/7A/a@b.com/Lab1.mp4'', Bytes ''DATA2'')]\<rparr>)"
    by (simp add: upload_defs video_defs user_defs s3_defs js_defs ex_defs List.map_filter_simps)
  have 3: "objects ex_uploaded \<noteq> [(''users/a@b.com.json'', Json (JObj ex_alice)),
         (''videos/Burnside/7A/a@b.com/Lab1.json'', Json ex_lab1),
         (''videos/Burnside/7A/a@b.com/Lab1.mp4'', Bytes ''DATA2'')]"
    by (simp add: ex_uploaded_def)
  show ?thesis unfolding 2 using 1 3 listVideos_one_argument [of s userEmail] by simp
qed


end
